theory Spec2Isabelle
  imports Complex_Main "HOL-Library.Word"
begin

section \<open>Data model\<close>

text \<open>
  The two services, \<^verbatim>\<open>edge-tts-service/app.py\<close> and \<^verbatim>\<open>espeak-tts-service/app.py\<close>,
  share one job API and differ in the key prefix, the cache file extension, the media
  type, the default voice and the synthesis call. The embedding takes the service as a
  parameter.
\<close>

datatype service = EdgeTTS | EspeakNG

type_synonym bytes = "8 word list"

text \<open>A Python \<^verbatim>\<open>str\<close> holding request text: a sequence of Unicode code points.\<close>

type_synonym pystr = "nat list"

record word_timing =
  wt_text :: string
  wt_offset :: rat
  wt_duration :: rat

text \<open>
  A segment dictionary as \<^verbatim>\<open>process_job_with_new_redis\<close> builds it. The edge service
  adds the key \<^verbatim>\<open>word_timings\<close>; the espeak service has no such key (\<open>None\<close>).
\<close>

record segment =
  seg_id :: string
  seg_index :: nat
  seg_status :: string
  audio_url :: string
  file_size :: nat
  seg_format :: string
  word_timings :: "word_timing list option"

text \<open>
  The job dictionary of \<^verbatim>\<open>create_job\<close>. The key \<^verbatim>\<open>prefer_phonemes\<close> exists in the
  espeak service only; \<^verbatim>\<open>error\<close> is absent until a failure sets it. The status is the
  string the code writes. \<^verbatim>\<open>created_at\<close> is kept as the clock reading, not as its ISO
  rendering.
\<close>

record job =
  job_id :: string
  status :: string
  created_at :: nat
  text_length :: nat
  voice :: string
  prefer_phonemes :: "bool option"
  segments :: "segment list"
  error :: "string option"

text \<open>
  The effects a run performs, in order. Every primitive below that touches the Job
  Store, the cache directory or the synthesis engine appends its event when it takes
  effect.
\<close>

datatype event =
    StoreGet string
  | StoreSet string job nat
  | StoreDelete string
  | BackendCall pystr string string
  | FileWrite string bytes
  | PathExists string
  | FileStat string
  | FileUnlink string
  | FileRead string

text \<open>
  The world the services run in: a clock in seconds; the Redis keyspace, each key with
  its value and the instant it expires; the files under the cache directory; the
  outcomes of the coming Redis commands (\<open>Some m\<close>: the command raises an exception
  whose \<^verbatim>\<open>str\<close> is \<open>m\<close> and changes nothing; \<open>None\<close> or an exhausted list: it succeeds);
  and the trace of effects.
\<close>

record world =
  now :: nat
  redis :: "string \<rightharpoonup> (job \<times> nat)"
  files :: "string \<rightharpoonup> bytes"
  faults :: "string option list"
  trace :: "event list"

section \<open>Configuration\<close>

definition JOB_EXPIRY_SECONDS :: nat where
  "JOB_EXPIRY_SECONDS = 3600"

definition CACHE_DIR :: string where
  "CACHE_DIR = ''/data/cache''"

fun DEFAULT_VOICE :: "service \<Rightarrow> string" where
  "DEFAULT_VOICE EdgeTTS = ''en-US-AriaNeural''"
| "DEFAULT_VOICE EspeakNG = ''en-us''"

fun key_prefix :: "service \<Rightarrow> string" where
  "key_prefix EdgeTTS = ''edge-tts:job:''"
| "key_prefix EspeakNG = ''espeak-tts:job:''"

fun cache_ext :: "service \<Rightarrow> string" where
  "cache_ext EdgeTTS = ''.mp3''"
| "cache_ext EspeakNG = ''.wav''"

fun audio_format :: "service \<Rightarrow> string" where
  "audio_format EdgeTTS = ''audio/mpeg''"
| "audio_format EspeakNG = ''audio/wav''"

definition job_key :: "service \<Rightarrow> string \<Rightarrow> string" where
  "job_key svc jid = key_prefix svc @ jid"

section \<open>Identifiers and paths\<close>

definition digit_char :: "nat \<Rightarrow> char" where
  "digit_char d = char_of (of_char CHR ''0'' + d)"

text \<open>Python's \<^verbatim>\<open>str\<close> of a non-negative integer: its decimal digits.\<close>

function str_nat :: "nat \<Rightarrow> string" where
  "str_nat n = (if n < 10 then [digit_char n] else str_nat (n div 10) @ [digit_char (n mod 10)])"
  by pat_completeness auto
termination
  by (relation "measure (\<lambda>n. n)") auto

declare str_nat.simps [simp del]

definition generate_segment_id :: "string \<Rightarrow> nat \<Rightarrow> string" where
  "generate_segment_id jid index = jid @ ''-seg-'' @ str_nat index"

text \<open>
  \<^verbatim>\<open>CACHE_DIR / name\<close> of pathlib: a name that starts with a slash replaces the
  directory, any other name is appended after a separator.
\<close>

definition path_join :: "string \<Rightarrow> string \<Rightarrow> string" where
  "path_join dir name = (case name of
      [] \<Rightarrow> dir
    | c # cs \<Rightarrow> if c = CHR ''/'' then name else dir @ ''/'' @ name)"

definition get_cache_path :: "service \<Rightarrow> string \<Rightarrow> string \<Rightarrow> string" where
  "get_cache_path svc jid segment_id = path_join CACHE_DIR (segment_id @ cache_ext svc)"

section \<open>Job Store primitives\<close>

definition next_fault :: "world \<Rightarrow> string option \<times> world" where
  "next_fault w = (case faults w of
      [] \<Rightarrow> (None, w)
    | f # fs \<Rightarrow> (f, w\<lparr>faults := fs\<rparr>))"

definition emit :: "event \<Rightarrow> world \<Rightarrow> world" where
  "emit e w = w\<lparr>trace := trace w @ [e]\<rparr>"

text \<open>A key is visible until the instant it expires.\<close>

definition live :: "world \<Rightarrow> string \<Rightarrow> job option" where
  "live w key = (case redis w key of
      None \<Rightarrow> None
    | Some (j, expires) \<Rightarrow> if now w < expires then Some j else None)"

definition r_get :: "string \<Rightarrow> world \<Rightarrow> (string + job option) \<times> world" where
  "r_get key w = (case next_fault w of
      (Some m, w1) \<Rightarrow> (Inl m, w1)
    | (None, w1) \<Rightarrow> (Inr (live w1 key), emit (StoreGet key) w1))"

definition r_set :: "string \<Rightarrow> job \<Rightarrow> nat \<Rightarrow> world \<Rightarrow> (string + unit) \<times> world" where
  "r_set key j ex w = (case next_fault w of
      (Some m, w1) \<Rightarrow> (Inl m, w1)
    | (None, w1) \<Rightarrow>
        (Inr (), emit (StoreSet key j ex) (w1\<lparr>redis := (redis w1)(key \<mapsto> (j, now w1 + ex))\<rparr>)))"

definition r_delete :: "string \<Rightarrow> world \<Rightarrow> (string + unit) \<times> world" where
  "r_delete key w = (case next_fault w of
      (Some m, w1) \<Rightarrow> (Inl m, w1)
    | (None, w1) \<Rightarrow> (Inr (), emit (StoreDelete key) (w1\<lparr>redis := (redis w1)(key := None)\<rparr>)))"

definition store_job :: "service \<Rightarrow> string \<Rightarrow> job \<Rightarrow> world \<Rightarrow> (string + unit) \<times> world" where
  "store_job svc jid job_data w = r_set (job_key svc jid) job_data JOB_EXPIRY_SECONDS w"

definition get_job :: "service \<Rightarrow> string \<Rightarrow> world \<Rightarrow> (string + job option) \<times> world" where
  "get_job svc jid w = r_get (job_key svc jid) w"

text \<open>Time passing with nothing else happening.\<close>

definition advance :: "nat \<Rightarrow> world \<Rightarrow> world" where
  "advance d w = w\<lparr>now := now w + d\<rparr>"

section \<open>Create\<close>

text \<open>The code points \<^verbatim>\<open>str.strip()\<close> removes: those for which \<^verbatim>\<open>str.isspace\<close> holds.\<close>

definition isspace :: "nat \<Rightarrow> bool" where
  "isspace c \<longleftrightarrow>
     (9 \<le> c \<and> c \<le> 13) \<or> (28 \<le> c \<and> c \<le> 32) \<or> c = 133 \<or> c = 160 \<or> c = 5760 \<or>
     (8192 \<le> c \<and> c \<le> 8202) \<or> c = 8232 \<or> c = 8233 \<or> c = 8239 \<or> c = 8287 \<or> c = 12288"

definition strip :: "pystr \<Rightarrow> pystr" where
  "strip s = rev (dropWhile isspace (rev (dropWhile isspace s)))"

record synthesis_request =
  req_text :: pystr
  req_voice :: "string option"
  req_model_id :: "string option"
  req_prefer_phonemes :: "bool option"
  req_reading_profile :: "string option"

text \<open>Python's \<^verbatim>\<open>a or b\<close> on optional strings: \<^verbatim>\<open>None\<close> and the empty string are falsy.\<close>

definition str_or :: "string option \<Rightarrow> string \<Rightarrow> string" where
  "str_or a b = (case a of None \<Rightarrow> b | Some s \<Rightarrow> if s = [] then b else s)"

definition bool_or_False :: "bool option \<Rightarrow> bool" where
  "bool_or_False b = (case b of None \<Rightarrow> False | Some v \<Rightarrow> v)"

datatype failure = HTTPException nat string | Unhandled string

record create_response =
  resp_job_id :: string
  resp_status :: string
  resp_message :: string

text \<open>The arguments \<^verbatim>\<open>background_tasks.add_task\<close> receives for \<^verbatim>\<open>process_job_sync\<close>.\<close>

record task =
  task_job_id :: string
  task_text :: pystr
  task_voice :: string
  task_prefer_phonemes :: bool

text \<open>
  \<^verbatim>\<open>create_job\<close>. The identifier \<^verbatim>\<open>uuid.uuid4()\<close> draws is the parameter \<open>new_id\<close>. An
  exception of the store leaves the handler unhandled (the framework answers 500).
\<close>

definition create_job ::
  "service \<Rightarrow> synthesis_request \<Rightarrow> string \<Rightarrow> world \<Rightarrow> (failure + create_response \<times> task) \<times> world" where
  "create_job svc request new_id w =
     (if req_text request = [] \<or> strip (req_text request) = []
      then (Inl (HTTPException 400 ''Text is required''), w)
      else
        let v = str_or (req_voice request) (str_or (req_model_id request) (DEFAULT_VOICE svc));
            job_data = \<lparr> job_id = new_id, status = ''pending'', created_at = now w,
                         text_length = length (req_text request), voice = v,
                         prefer_phonemes = (case svc of EdgeTTS \<Rightarrow> None
                            | EspeakNG \<Rightarrow> Some (bool_or_False (req_prefer_phonemes request))),
                         segments = [], error = None \<rparr>
        in case store_job svc new_id job_data w of
             (Inl m, w1) \<Rightarrow> (Inl (Unhandled m), w1)
           | (Inr u, w1) \<Rightarrow>
               (Inr (\<lparr> resp_job_id = new_id, resp_status = ''pending'',
                       resp_message = ''Job created successfully'' \<rparr>,
                     \<lparr> task_job_id = new_id, task_text = strip (req_text request), task_voice = v,
                       task_prefer_phonemes = bool_or_False (req_prefer_phonemes request) \<rparr>), w1))"

section \<open>Cache directory primitives\<close>

definition path_exists :: "string \<Rightarrow> world \<Rightarrow> bool \<times> world" where
  "path_exists p w = (files w p \<noteq> None, emit (PathExists p) w)"

text \<open>\<^verbatim>\<open>Path.stat().st_size\<close>: raises for a missing file.\<close>

definition stat_size :: "string \<Rightarrow> world \<Rightarrow> (string + nat) \<times> world" where
  "stat_size p w = (case files w p of
      None \<Rightarrow> (Inl (''[Errno 2] No such file or directory: '' @ p), w)
    | Some d \<Rightarrow> (Inr (length d), emit (FileStat p) w))"

definition write_file :: "string \<Rightarrow> bytes \<Rightarrow> world \<Rightarrow> world" where
  "write_file p d w = emit (FileWrite p d) (w\<lparr>files := (files w)(p \<mapsto> d)\<rparr>)"

text \<open>\<^verbatim>\<open>Path.unlink()\<close>: raises for a missing file.\<close>

definition unlink :: "string \<Rightarrow> world \<Rightarrow> (string + unit) \<times> world" where
  "unlink p w = (case files w p of
      None \<Rightarrow> (Inl (''[Errno 2] No such file or directory: '' @ p), w)
    | Some d \<Rightarrow> (Inr (), emit (FileUnlink p) (w\<lparr>files := (files w)(p := None)\<rparr>)))"

definition read_file :: "string \<Rightarrow> world \<Rightarrow> (string + bytes) \<times> world" where
  "read_file p w = (case files w p of
      None \<Rightarrow> (Inl (''File at path '' @ p @ '' does not exist.''), w)
    | Some d \<Rightarrow> (Inr d, emit (FileRead p) w))"

section \<open>Synthesis Backend\<close>

text \<open>
  The engines are external. What one call of an engine does is a parameter of the run.

  Edge: the chunks \<^verbatim>\<open>communicate.stream()\<close> yields, the exception (if any) that
  \<^verbatim>\<open>edge_tts.Communicate\<close> or the stream raises, in which case the chunks are lost, and
  the exception (if any) that opening the output file raises.
\<close>

datatype chunk = AudioChunk bytes | WordBoundary string int int | OtherChunk

record edge_engine =
  stream_chunks :: "chunk list"
  stream_error :: "string option"
  write_error :: "string option"

text \<open>
  Espeak: the file the \<^verbatim>\<open>espeak-ng\<close> process leaves at its \<^verbatim>\<open>-w\<close> path (\<open>None\<close>: it
  writes none) and what \<^verbatim>\<open>subprocess.run\<close> gives: an exception (\<open>Inl\<close>, the timeout
  among them) or the return code. The command line, with the phoneme conversion of the
  text behind \<^verbatim>\<open>prefer_phonemes\<close>, only selects what the engine is asked; it is not part
  of the embedding.
\<close>

record espeak_engine =
  wav_written :: "bytes option"
  run_result :: "string + int"

datatype backend = EdgeBackend edge_engine | EspeakBackend espeak_engine

fun service_of :: "backend \<Rightarrow> service" where
  "service_of (EdgeBackend e) = EdgeTTS"
| "service_of (EspeakBackend e) = EspeakNG"

text \<open>The loop over the stream of \<^verbatim>\<open>synthesize_text_with_timing\<close>.\<close>

fun collect :: "chunk list \<Rightarrow> bytes list \<times> word_timing list" where
  "collect [] = ([], [])"
| "collect (AudioChunk d # cs) = (case collect cs of (a, t) \<Rightarrow> (d # a, t))"
| "collect (WordBoundary tx off dur # cs) = (case collect cs of (a, t) \<Rightarrow>
     (a, \<lparr> wt_text = tx, wt_offset = of_int off / 10000, wt_duration = of_int dur / 10000 \<rparr> # t))"
| "collect (OtherChunk # cs) = collect cs"

definition synthesize_text_with_timing ::
  "edge_engine \<Rightarrow> pystr \<Rightarrow> string \<Rightarrow> string \<Rightarrow> world \<Rightarrow> (bool \<times> word_timing list) \<times> world" where
  "synthesize_text_with_timing eng txt v output_path w =
     (let w0 = emit (BackendCall txt v output_path) w in
      case stream_error eng of
        Some m \<Rightarrow> ((False, []), w0)
      | None \<Rightarrow>
          (case collect (stream_chunks eng) of (audio_chunks, timings) \<Rightarrow>
             if audio_chunks \<noteq> []
             then (case write_error eng of
                     Some m \<Rightarrow> ((False, []), w0)
                   | None \<Rightarrow> ((True, timings), write_file output_path (concat audio_chunks) w0))
             else ((False, []), w0)))"

definition synthesize_text ::
  "espeak_engine \<Rightarrow> pystr \<Rightarrow> string \<Rightarrow> string \<Rightarrow> bool \<Rightarrow> world \<Rightarrow> bool \<times> world" where
  "synthesize_text eng txt v output_path prefer w =
     (let w0 = emit (BackendCall txt v output_path) w;
          w1 = (case wav_written eng of None \<Rightarrow> w0 | Some d \<Rightarrow> write_file output_path d w0)
      in case run_result eng of
           Inl m \<Rightarrow> (False, w1)
         | Inr returncode \<Rightarrow>
             if returncode \<noteq> 0 then (False, w1)
             else (case path_exists output_path w1 of (present, w2) \<Rightarrow>
                     if \<not> present then (False, w2)
                     else (case stat_size output_path w2 of
                             (Inl m, w3) \<Rightarrow> (False, w3)
                           | (Inr sz, w3) \<Rightarrow> (0 < sz, w3))))"

fun synthesize ::
  "backend \<Rightarrow> pystr \<Rightarrow> string \<Rightarrow> string \<Rightarrow> bool \<Rightarrow> world \<Rightarrow> (bool \<times> word_timing list option) \<times> world" where
  "synthesize (EdgeBackend e) txt v p prefer w =
     (case synthesize_text_with_timing e txt v p w of ((ok, t), w1) \<Rightarrow> ((ok, Some t), w1))"
| "synthesize (EspeakBackend e) txt v p prefer w =
     (case synthesize_text e txt v p prefer w of (ok, w1) \<Rightarrow> ((ok, None), w1))"

section \<open>Job Executor\<close>

text \<open>
  \<^verbatim>\<open>process_job_with_new_redis\<close>, in the two stretches of its \<^verbatim>\<open>try\<close> block that the
  await of the synthesis call separates, and its \<^verbatim>\<open>except\<close> handler. \<open>Inl m\<close> is an
  exception with message \<open>m\<close> leaving the \<^verbatim>\<open>try\<close> block.

  First stretch: read the record, return if there is none, write \<^verbatim>\<open>processing\<close>.
\<close>

definition accept_job :: "service \<Rightarrow> string \<Rightarrow> world \<Rightarrow> (string + job option) \<times> world" where
  "accept_job svc jid w = (case r_get (job_key svc jid) w of
      (Inl m, w1) \<Rightarrow> (Inl m, w1)
    | (Inr None, w1) \<Rightarrow> (Inr None, w1)
    | (Inr (Some data), w1) \<Rightarrow>
        (let job_data = data\<lparr>status := ''processing''\<rparr> in
         case r_set (job_key svc jid) job_data JOB_EXPIRY_SECONDS w1 of
           (Inl m, w2) \<Rightarrow> (Inl m, w2)
         | (Inr u, w2) \<Rightarrow> (Inr (Some job_data), w2)))"

definition completed_segment ::
  "service \<Rightarrow> string \<Rightarrow> string \<Rightarrow> nat \<Rightarrow> word_timing list option \<Rightarrow> segment" where
  "completed_segment svc jid segment_id sz timings =
     \<lparr> seg_id = segment_id, seg_index = 0, seg_status = ''completed'',
       audio_url = ''/v1/tts/jobs/'' @ jid @ ''/segments/'' @ segment_id @ ''/audio'',
       file_size = sz, seg_format = audio_format svc, word_timings = timings \<rparr>"

text \<open>Second stretch: synthesize, then write the terminal record.\<close>

definition finish_job ::
  "backend \<Rightarrow> string \<Rightarrow> pystr \<Rightarrow> bool \<Rightarrow> job \<Rightarrow> world \<Rightarrow> (string + unit) \<times> world" where
  "finish_job be jid txt prefer job_data w =
     (let svc = service_of be;
          segment_id = generate_segment_id jid 0;
          output_path = get_cache_path svc jid segment_id
      in case synthesize be txt (voice job_data) output_path prefer w of ((success, timings), w1) \<Rightarrow>
           (case (if success then path_exists output_path w1 else (False, w1)) of (present, w2) \<Rightarrow>
              if success \<and> present
              then (case stat_size output_path w2 of
                      (Inl m, w3) \<Rightarrow> (Inl m, w3)
                    | (Inr sz, w3) \<Rightarrow>
                        r_set (job_key svc jid)
                          (job_data\<lparr>status := ''completed'',
                                     segments := [completed_segment svc jid segment_id sz timings]\<rparr>)
                          JOB_EXPIRY_SECONDS w3)
              else r_set (job_key svc jid)
                     (job_data\<lparr>status := ''failed'', error := Some ''Synthesis failed''\<rparr>)
                     JOB_EXPIRY_SECONDS w2))"

text \<open>
  The handler: read the record again and, if it is there, write it as \<^verbatim>\<open>failed\<close> with
  \<^verbatim>\<open>str(e)\<close>; an exception in here is printed and dropped.
\<close>

definition mark_failed :: "service \<Rightarrow> string \<Rightarrow> string \<Rightarrow> world \<Rightarrow> world" where
  "mark_failed svc jid e w = (case r_get (job_key svc jid) w of
      (Inl e2, w1) \<Rightarrow> w1
    | (Inr None, w1) \<Rightarrow> w1
    | (Inr (Some data), w1) \<Rightarrow>
        snd (r_set (job_key svc jid) (data\<lparr>status := ''failed'', error := Some e\<rparr>)
               JOB_EXPIRY_SECONDS w1))"

text \<open>The second stretch under the handler.\<close>

definition complete_job :: "backend \<Rightarrow> string \<Rightarrow> pystr \<Rightarrow> bool \<Rightarrow> job \<Rightarrow> world \<Rightarrow> world" where
  "complete_job be jid txt prefer job_data w =
     (case finish_job be jid txt prefer job_data w of
        (Inl e, w2) \<Rightarrow> mark_failed (service_of be) jid e w2
      | (Inr u, w2) \<Rightarrow> w2)"

text \<open>
  The whole function. \<open>other\<close> is what the rest of the system does to the world while
  the executor waits for the synthesis; the function of the source, run alone, is the
  instance with nothing happening. Its \<^verbatim>\<open>voice\<close> argument is not read: the voice comes
  from the record.
\<close>

definition process_job_interleaved ::
  "(world \<Rightarrow> world) \<Rightarrow> backend \<Rightarrow> string \<Rightarrow> pystr \<Rightarrow> string \<Rightarrow> bool \<Rightarrow> world \<Rightarrow> world" where
  "process_job_interleaved other be jid txt v prefer w =
     (case accept_job (service_of be) jid w of
        (Inl e, w1) \<Rightarrow> mark_failed (service_of be) jid e w1
      | (Inr None, w1) \<Rightarrow> w1
      | (Inr (Some job_data), w1) \<Rightarrow> complete_job be jid txt prefer job_data (other w1))"

definition process_job_with_new_redis ::
  "backend \<Rightarrow> string \<Rightarrow> pystr \<Rightarrow> string \<Rightarrow> bool \<Rightarrow> world \<Rightarrow> world" where
  "process_job_with_new_redis be jid txt v prefer w =
     process_job_interleaved (\<lambda>x. x) be jid txt v prefer w"


section \<open>Job Service: status, audio, delete\<close>

definition get_job_status :: "service \<Rightarrow> string \<Rightarrow> world \<Rightarrow> (failure + job) \<times> world" where
  "get_job_status svc jid w = (case get_job svc jid w of
      (Inl m, w1) \<Rightarrow> (Inl (Unhandled m), w1)
    | (Inr None, w1) \<Rightarrow> (Inl (HTTPException 404 ''Job not found''), w1)
    | (Inr (Some job_data), w1) \<Rightarrow> (Inr job_data, w1))"

text \<open>The search loop of \<^verbatim>\<open>get_segment_audio\<close>: the first segment with the given id.\<close>

fun find_segment :: "segment list \<Rightarrow> string \<Rightarrow> segment option" where
  "find_segment [] segment_id = None"
| "find_segment (seg # segs) segment_id =
     (if seg_id seg = segment_id then Some seg else find_segment segs segment_id)"

record file_response =
  fr_path :: string
  fr_content :: bytes
  fr_media_type :: string
  fr_filename :: string

definition get_segment_audio ::
  "service \<Rightarrow> string \<Rightarrow> string \<Rightarrow> world \<Rightarrow> (failure + file_response) \<times> world" where
  "get_segment_audio svc jid segment_id w = (case get_job svc jid w of
      (Inl m, w1) \<Rightarrow> (Inl (Unhandled m), w1)
    | (Inr None, w1) \<Rightarrow> (Inl (HTTPException 404 ''Job not found''), w1)
    | (Inr (Some job_data), w1) \<Rightarrow>
        if status job_data \<noteq> ''completed''
        then (Inl (HTTPException 400 (''Job is '' @ status job_data @ '', not completed'')), w1)
        else (case find_segment (segments job_data) segment_id of
                None \<Rightarrow> (Inl (HTTPException 404 ''Segment not found''), w1)
              | Some seg \<Rightarrow>
                  (let audio_path = get_cache_path svc jid segment_id in
                   case path_exists audio_path w1 of (present, w2) \<Rightarrow>
                     if \<not> present
                     then (Inl (HTTPException 404 ''Audio file not found''), w2)
                     else (case read_file audio_path w2 of
                             (Inl m, w3) \<Rightarrow> (Inl (Unhandled m), w3)
                           | (Inr d, w3) \<Rightarrow>
                               (Inr \<lparr> fr_path = audio_path, fr_content = d,
                                      fr_media_type = audio_format svc,
                                      fr_filename = segment_id @ cache_ext svc \<rparr>, w3)))))"

text \<open>
  The loop of \<^verbatim>\<open>delete_job\<close> over the record's segments: a file is unlinked only when
  \<^verbatim>\<open>exists()\<close> has just found it; an exception of \<^verbatim>\<open>unlink()\<close> ends the loop.
\<close>

fun unlink_segments ::
  "service \<Rightarrow> string \<Rightarrow> segment list \<Rightarrow> world \<Rightarrow> (string + unit) \<times> world" where
  "unlink_segments svc jid [] w = (Inr (), w)"
| "unlink_segments svc jid (seg # segs) w =
     (let audio_path = get_cache_path svc jid (seg_id seg) in
      case path_exists audio_path w of (present, w1) \<Rightarrow>
        if present
        then (case unlink audio_path w1 of
                (Inl m, w2) \<Rightarrow> (Inl m, w2)
              | (Inr u, w2) \<Rightarrow> unlink_segments svc jid segs w2)
        else unlink_segments svc jid segs w1)"

definition delete_job :: "service \<Rightarrow> string \<Rightarrow> world \<Rightarrow> (failure + string) \<times> world" where
  "delete_job svc jid w = (case get_job svc jid w of
      (Inl m, w1) \<Rightarrow> (Inl (Unhandled m), w1)
    | (Inr None, w1) \<Rightarrow> (Inl (HTTPException 404 ''Job not found''), w1)
    | (Inr (Some job_data), w1) \<Rightarrow>
        (case unlink_segments svc jid (segments job_data) w1 of
           (Inl m, w2) \<Rightarrow> (Inl (Unhandled m), w2)
         | (Inr u, w2) \<Rightarrow>
             (case r_delete (job_key svc jid) w2 of
                (Inl m, w3) \<Rightarrow> (Inl (Unhandled m), w3)
              | (Inr u, w3) \<Rightarrow> (Inr ''Job deleted successfully'', w3))))"

section \<open>Reading the trace\<close>

text \<open>The status values written under a key, in the order of the writes.\<close>

fun status_writes :: "string \<Rightarrow> event list \<Rightarrow> string list" where
  "status_writes key [] = []"
| "status_writes key (StoreSet k j ex # es) =
     (if k = key then status j # status_writes key es else status_writes key es)"
| "status_writes key (e # es) = status_writes key es"

text \<open>The expiry argument of every write, in order.\<close>

fun set_ttls :: "event list \<Rightarrow> nat list" where
  "set_ttls [] = []"
| "set_ttls (StoreSet k j ex # es) = ex # set_ttls es"
| "set_ttls (e # es) = set_ttls es"

text \<open>Events on the cache directory.\<close>

fun cache_event :: "event \<Rightarrow> bool" where
  "cache_event (FileWrite p d) = True"
| "cache_event (PathExists p) = True"
| "cache_event (FileStat p) = True"
| "cache_event (FileUnlink p) = True"
| "cache_event (FileRead p) = True"
| "cache_event e = False"


section \<open>Fixtures for concrete runs\<close>

definition world0 :: world where
  "world0 = \<lparr> now = 0, redis = Map.empty, files = Map.empty, faults = [], trace = [] \<rparr>"

definition blank_request :: synthesis_request where
  "blank_request = \<lparr> req_text = [32, 9, 32], req_voice = None, req_model_id = None,
     req_prefer_phonemes = None, req_reading_profile = None \<rparr>"

definition hello_request :: synthesis_request where
  "hello_request = \<lparr> req_text = [72, 105], req_voice = None, req_model_id = None,
     req_prefer_phonemes = None, req_reading_profile = None \<rparr>"

text \<open>Events on the Job Store.\<close>

fun store_event :: "event \<Rightarrow> bool" where
  "store_event (StoreGet k) = True"
| "store_event (StoreSet k j ex) = True"
| "store_event (StoreDelete k) = True"
| "store_event e = False"

text \<open>The answer is a NotFound (status 404).\<close>

fun is_not_found :: "failure + 'a \<Rightarrow> bool" where
  "is_not_found (Inl (HTTPException code detail)) = (code = 404)"
| "is_not_found r = False"

text \<open>A job whose synthesis has finished, with its audio file in the cache.\<close>

definition done_job :: job where
  "done_job = \<lparr> job_id = ''j1'', status = ''completed'', created_at = 0, text_length = 2,
     voice = ''en-US-AriaNeural'', prefer_phonemes = None,
     segments = [completed_segment EdgeTTS ''j1'' ''j1-seg-0'' 3 (Some [])], error = None \<rparr>"

definition done_world :: world where
  "done_world = \<lparr> now = 10,
     redis = [job_key EdgeTTS ''j1'' \<mapsto> (done_job, 3610)],
     files = [''/data/cache/j1-seg-0.mp3'' \<mapsto> [1, 2, 3]], faults = [], trace = [] \<rparr>"

text \<open>The world right after \<^verbatim>\<open>create_job\<close> has answered.\<close>

definition pending_world :: world where
  "pending_world = snd (create_job EdgeTTS hello_request ''j1'' world0)"

text \<open>An engine that streams two audio chunks and a word boundary.\<close>

definition good_engine :: edge_engine where
  "good_engine = \<lparr> stream_chunks = [AudioChunk [1, 2], WordBoundary ''Hi'' 0 10000, AudioChunk [3]],
     stream_error = None, write_error = None \<rparr>"


text \<open>A client deleting job \<^verbatim>\<open>j1\<close> while the executor waits for the synthesis.\<close>

definition delete_during_synthesis :: "world \<Rightarrow> world" where
  "delete_during_synthesis w = snd (delete_job EdgeTTS ''j1'' w)"

text \<open>The world after the executor has run on \<^verbatim>\<open>j1\<close> with that delete in between.\<close>

definition raced_world :: world where
  "raced_world = process_job_interleaved delete_during_synthesis (EdgeBackend good_engine)
     ''j1'' [72, 105] ''en-US-AriaNeural'' False pending_world"

text \<open>An edge stream whose only audio chunk carries no bytes.\<close>

definition empty_chunk_engine :: edge_engine where
  "empty_chunk_engine = \<lparr> stream_chunks = [AudioChunk []], stream_error = None,
     write_error = None \<rparr>"

definition empty_chunk_run :: world where
  "empty_chunk_run = process_job_with_new_redis (EdgeBackend empty_chunk_engine) ''j1'' [72, 105]
     ''en-US-AriaNeural'' False pending_world"

text \<open>The same for espeak: the process returns 0 and leaves a file of no bytes.\<close>

definition empty_wav_engine :: espeak_engine where
  "empty_wav_engine = \<lparr> wav_written = Some [], run_result = Inr 0 \<rparr>"

definition espeak_pending_world :: world where
  "espeak_pending_world = snd (create_job EspeakNG hello_request ''j1'' world0)"

definition empty_wav_run :: world where
  "empty_wav_run = process_job_with_new_redis (EspeakBackend empty_wav_engine) ''j1'' [72, 105]
     ''en-us'' False espeak_pending_world"



text \<open>Job \<^verbatim>\<open>j1\<close> as the executor holds it after its \<^verbatim>\<open>processing\<close> write, and the world then.\<close>

definition processing_job :: job where
  "processing_job = \<lparr> job_id = ''j1'', status = ''processing'', created_at = 0, text_length = 2,
     voice = ''en-US-AriaNeural'', prefer_phonemes = None, segments = [], error = None \<rparr>"

definition processing_world :: world where
  "processing_world = \<lparr> now = 5,
     redis = [job_key EdgeTTS ''j1'' \<mapsto> (processing_job, 3605)],
     files = Map.empty, faults = [], trace = [] \<rparr>"

text \<open>The same world with the store refusing its next command.\<close>

definition refusing_world :: world where
  "refusing_world = processing_world\<lparr>faults := [Some ''Connection refused'']\<rparr>"


section \<open>Basic facts about the primitives\<close>

lemma next_fault_none [simp]: "faults w = [] \<Longrightarrow> next_fault w = (None, w)"
  by (simp add: next_fault_def)

lemma emit_fields [simp]:
  "now (emit e w) = now w" "redis (emit e w) = redis w" "files (emit e w) = files w"
  "faults (emit e w) = faults w" "trace (emit e w) = trace w @ [e]"
  by (simp_all add: emit_def)

lemma live_emit [simp]: "live (emit e w) key = live w key"
  by (simp add: live_def split: option.split)

lemma r_get_ok: "faults w = [] \<Longrightarrow> r_get key w = (Inr (live w key), emit (StoreGet key) w)"
  by (simp add: r_get_def)

lemma r_set_ok: "faults w = [] \<Longrightarrow>
  r_set key j ex w = (Inr (), emit (StoreSet key j ex) (w\<lparr>redis := (redis w)(key \<mapsto> (j, now w + ex))\<rparr>))"
  by (simp add: r_set_def)

lemma r_delete_ok: "faults w = [] \<Longrightarrow>
  r_delete key w = (Inr (), emit (StoreDelete key) (w\<lparr>redis := (redis w)(key := None)\<rparr>))"
  by (simp add: r_delete_def)

section \<open>Create validates the text\<close>

lemma strip_empty_iff: "strip s = [] \<longleftrightarrow> list_all isspace s"
proof
  assume "strip s = []"
  then have a: "\<forall>c\<in>set (dropWhile isspace s). isspace c" by (simp add: strip_def)
  have "\<forall>c\<in>set s. isspace c"
  proof (rule ccontr)
    assume "\<not> (\<forall>c\<in>set s. isspace c)"
    then have ne: "dropWhile isspace s \<noteq> []" by simp
    then have "\<not> isspace (hd (dropWhile isspace s))" by (rule hd_dropWhile)
    moreover have "hd (dropWhile isspace s) \<in> set (dropWhile isspace s)"
      using ne by simp
    ultimately show False using a by blast
  qed
  then show "list_all isspace s" by (simp add: list_all_iff)
next
  assume "list_all isspace s"
  then show "strip s = []" by (auto simp: strip_def list_all_iff dest: set_dropWhileD)
qed

text \<open>
  C3. A request whose text is empty or only whitespace is refused with status 400 and
  the world, the Job Store included, is left as it was. A request with any other text,
  the store answering, gets its job id back with status \<^verbatim>\<open>pending\<close>, and the store then
  holds a \<^verbatim>\<open>pending\<close> record under that id.
\<close>

theorem create_job_validates_text:
  "(req_text request = [] \<or> list_all isspace (req_text request) \<longrightarrow>
      create_job svc request new_id w = (Inl (HTTPException 400 ''Text is required''), w)) \<and>
   (\<not> list_all isspace (req_text request) \<and> faults w = [] \<longrightarrow>
      (\<exists>t w'. create_job svc request new_id w =
          (Inr (\<lparr> resp_job_id = new_id, resp_status = ''pending'',
                  resp_message = ''Job created successfully'' \<rparr>, t), w') \<and>
        (\<exists>j. live w' (job_key svc new_id) = Some j \<and> status j = ''pending'' \<and> job_id j = new_id)))"
proof (intro conjI impI)
  assume "req_text request = [] \<or> list_all isspace (req_text request)"
  then have "strip (req_text request) = []" by (auto simp: strip_empty_iff)
  then show "create_job svc request new_id w = (Inl (HTTPException 400 ''Text is required''), w)"
    by (simp add: create_job_def)
next
  assume a: "\<not> list_all isspace (req_text request) \<and> faults w = []"
  then have ne: "strip (req_text request) \<noteq> []" "req_text request \<noteq> []"
    by (auto simp: strip_empty_iff)
  from a have f: "faults w = []" by simp
  show "\<exists>t w'. create_job svc request new_id w =
          (Inr (\<lparr> resp_job_id = new_id, resp_status = ''pending'',
                  resp_message = ''Job created successfully'' \<rparr>, t), w') \<and>
        (\<exists>j. live w' (job_key svc new_id) = Some j \<and> status j = ''pending'' \<and> job_id j = new_id)"
    using ne f by (simp add: create_job_def store_job_def r_set_ok Let_def live_def JOB_EXPIRY_SECONDS_def)
qed

theorem create_job_validates_text_witness:
  "list_all isspace (req_text blank_request) \<and>
   create_job EdgeTTS blank_request ''j1'' world0 =
     (Inl (HTTPException 400 ''Text is required''), world0) \<and>
   \<not> list_all isspace (req_text hello_request) \<and> faults world0 = [] \<and>
   (\<exists>t w'. create_job EdgeTTS hello_request ''j1'' world0 =
          (Inr (\<lparr> resp_job_id = ''j1'', resp_status = ''pending'',
                  resp_message = ''Job created successfully'' \<rparr>, t), w') \<and>
        (\<exists>j. live w' (job_key EdgeTTS ''j1'') = Some j \<and> status j = ''pending'' \<and> job_id j = ''j1''))"
proof -
  have b: "list_all isspace (req_text blank_request)"
    by (simp add: blank_request_def isspace_def)
  have h: "\<not> list_all isspace (req_text hello_request)"
    by (simp add: hello_request_def isspace_def)
  have f: "faults world0 = []" by (simp add: world0_def)
  show ?thesis
    using b h f create_job_validates_text [of blank_request EdgeTTS "''j1''" world0]
      create_job_validates_text [of hello_request EdgeTTS "''j1''" world0]
    by blast
qed

section \<open>Frame facts\<close>

lemma status_writes_append [simp]:
  "status_writes k (xs @ ys) = status_writes k xs @ status_writes k ys"
  by (induction k xs rule: status_writes.induct) auto

lemma set_ttls_append [simp]: "set_ttls (xs @ ys) = set_ttls xs @ set_ttls ys"
  by (induction xs rule: set_ttls.induct) auto

lemma no_store_status_writes: "list_all (\<lambda>e. \<not> store_event e) evs \<Longrightarrow> status_writes k evs = []"
  by (induction k evs rule: status_writes.induct) auto

lemma no_store_set_ttls: "list_all (\<lambda>e. \<not> store_event e) evs \<Longrightarrow> set_ttls evs = []"
  by (induction evs rule: set_ttls.induct) auto

lemma write_file_fields [simp]:
  "now (write_file p d w) = now w" "redis (write_file p d w) = redis w"
  "files (write_file p d w) = (files w)(p \<mapsto> d)" "faults (write_file p d w) = faults w"
  "trace (write_file p d w) = trace w @ [FileWrite p d]"
  by (simp_all add: write_file_def)


text \<open>
  A synthesis call leaves the clock, the store and the fault schedule alone, and adds
  only its own call and cache events to the trace.
\<close>

lemma synthesize_text_with_timing_frame:
  assumes "synthesize_text_with_timing e txt v p w = (r, w1)"
  shows "now w1 = now w \<and> redis w1 = redis w \<and> faults w1 = faults w \<and>
         (\<exists>evs. trace w1 = trace w @ BackendCall txt v p # evs \<and> list_all cache_event evs)"
  using assms
  by (auto simp: synthesize_text_with_timing_def Let_def split: option.splits prod.splits if_splits)

lemma synthesize_text_frame:
  assumes "synthesize_text e txt v p prefer w = (r, w1)"
  shows "now w1 = now w \<and> redis w1 = redis w \<and> faults w1 = faults w \<and>
         (\<exists>evs. trace w1 = trace w @ BackendCall txt v p # evs \<and> list_all cache_event evs)"
  using assms
  by (auto simp: synthesize_text_def Let_def path_exists_def stat_size_def
      split: option.splits prod.splits if_splits sum.splits)

lemma synthesize_frame:
  assumes "synthesize be txt v p prefer w = (r, w1)"
  shows "now w1 = now w \<and> redis w1 = redis w \<and> faults w1 = faults w \<and>
         (\<exists>evs. trace w1 = trace w @ BackendCall txt v p # evs \<and> list_all cache_event evs)"
proof (cases be)
  case (EdgeBackend e)
  obtain r0 w0 where s: "synthesize_text_with_timing e txt v p w = (r0, w0)"
    by (cases "synthesize_text_with_timing e txt v p w") auto
  with assms EdgeBackend have "w1 = w0" by (auto split: prod.splits)
  with synthesize_text_with_timing_frame [OF s] show ?thesis by simp
next
  case (EspeakBackend e)
  obtain r0 w0 where s: "synthesize_text e txt v p prefer w = (r0, w0)"
    by (cases "synthesize_text e txt v p prefer w") auto
  with assms EspeakBackend have "w1 = w0" by (auto split: prod.splits)
  with synthesize_text_frame [OF s] show ?thesis by simp
qed

section \<open>GetSegmentAudio\<close>

lemma find_segment_None: "find_segment segs sid = None \<longleftrightarrow> \<not> list_ex (\<lambda>seg. seg_id seg = sid) segs"
  by (induction segs) auto

lemma find_segment_Some: "find_segment segs sid = Some seg \<Longrightarrow> seg \<in> set segs \<and> seg_id seg = sid"
  by (induction segs) (auto split: if_splits)

lemma get_segment_audio_ok:
  assumes "faults w = []"
  shows "get_segment_audio svc jid sid w =
     (case live w (job_key svc jid) of
        None \<Rightarrow> (Inl (HTTPException 404 ''Job not found''), emit (StoreGet (job_key svc jid)) w)
      | Some j \<Rightarrow>
          if status j \<noteq> ''completed''
          then (Inl (HTTPException 400 (''Job is '' @ status j @ '', not completed'')),
                emit (StoreGet (job_key svc jid)) w)
          else if \<not> list_ex (\<lambda>seg. seg_id seg = sid) (segments j)
          then (Inl (HTTPException 404 ''Segment not found''), emit (StoreGet (job_key svc jid)) w)
          else (case files w (get_cache_path svc jid sid) of
                  None \<Rightarrow> (Inl (HTTPException 404 ''Audio file not found''),
                            emit (PathExists (get_cache_path svc jid sid))
                              (emit (StoreGet (job_key svc jid)) w))
                | Some d \<Rightarrow>
                    (Inr \<lparr> fr_path = get_cache_path svc jid sid, fr_content = d,
                           fr_media_type = audio_format svc, fr_filename = sid @ cache_ext svc \<rparr>,
                     emit (FileRead (get_cache_path svc jid sid))
                       (emit (PathExists (get_cache_path svc jid sid))
                          (emit (StoreGet (job_key svc jid)) w)))))"
proof (cases "live w (job_key svc jid)")
  case None
  then show ?thesis using assms by (simp add: get_segment_audio_def get_job_def r_get_ok)
next
  case (Some j)
  show ?thesis
  proof (cases "find_segment (segments j) sid")
    case None
    then have "\<not> list_ex (\<lambda>seg. seg_id seg = sid) (segments j)" by (simp add: find_segment_None)
    then show ?thesis using assms Some None
      by (simp add: get_segment_audio_def get_job_def r_get_ok)
  next
    case (Some seg)
    then have "list_ex (\<lambda>seg. seg_id seg = sid) (segments j)"
      using find_segment_None [of "segments j" sid] by simp
    then show ?thesis using assms \<open>live w (job_key svc jid) = Some j\<close> Some
      by (simp add: get_segment_audio_def get_job_def r_get_ok path_exists_def read_file_def
          Let_def split: option.splits)
  qed
qed

text \<open>
  C5. With the store answering, \<^verbatim>\<open>get_segment_audio\<close> answers 404 when the job is
  absent; else 400 when its status is not \<^verbatim>\<open>completed\<close>; else 404 when no segment of the
  record has the given id; else 404 when the cache file is missing; else the bytes of the
  file, with the media type of the service. An earlier check wins over every later one.
  For a record whose segment declares the format of the service, as every segment the
  executor writes does, that media type is the segment's declared one.
\<close>

theorem get_segment_audio_check_order:
  assumes "faults w = []"
  shows "fst (get_segment_audio svc jid sid w) =
     (case live w (job_key svc jid) of
        None \<Rightarrow> Inl (HTTPException 404 ''Job not found'')
      | Some j \<Rightarrow>
          if status j \<noteq> ''completed''
          then Inl (HTTPException 400 (''Job is '' @ status j @ '', not completed''))
          else if \<not> list_ex (\<lambda>seg. seg_id seg = sid) (segments j)
          then Inl (HTTPException 404 ''Segment not found'')
          else (case files w (get_cache_path svc jid sid) of
                  None \<Rightarrow> Inl (HTTPException 404 ''Audio file not found'')
                | Some d \<Rightarrow>
                    Inr \<lparr> fr_path = get_cache_path svc jid sid, fr_content = d,
                          fr_media_type = audio_format svc, fr_filename = sid @ cache_ext svc \<rparr>))
   \<and> (\<forall>j seg r. live w (job_key svc jid) = Some j \<and> find_segment (segments j) sid = Some seg \<and>
          seg_format seg = audio_format svc \<and> fst (get_segment_audio svc jid sid w) = Inr r
        \<longrightarrow> fr_media_type r = seg_format seg \<and> files w (fr_path r) = Some (fr_content r))"
  using assms
  by (auto simp: get_segment_audio_ok split: option.splits if_splits)

theorem get_segment_audio_check_order_witness:
  "faults done_world = [] \<and>
   live done_world (job_key EdgeTTS ''j1'') = Some done_job \<and>
   find_segment (segments done_job) ''j1-seg-0'' =
     Some (completed_segment EdgeTTS ''j1'' ''j1-seg-0'' 3 (Some [])) \<and>
   seg_format (completed_segment EdgeTTS ''j1'' ''j1-seg-0'' 3 (Some [])) = audio_format EdgeTTS \<and>
   fst (get_segment_audio EdgeTTS ''j1'' ''j1-seg-0'' done_world) =
     Inr \<lparr> fr_path = ''/data/cache/j1-seg-0.mp3'', fr_content = [1, 2, 3],
           fr_media_type = ''audio/mpeg'', fr_filename = ''j1-seg-0.mp3'' \<rparr> \<and>
   fst (get_segment_audio EdgeTTS ''j1'' ''j1-seg-7'' done_world) =
     Inl (HTTPException 404 ''Segment not found'') \<and>
   fst (get_segment_audio EdgeTTS ''j2'' ''j1-seg-0'' done_world) =
     Inl (HTTPException 404 ''Job not found'')"
proof -
  have f: "faults done_world = []" by (simp add: done_world_def)
  have l: "live done_world (job_key EdgeTTS ''j1'') = Some done_job"
    by (simp add: done_world_def live_def job_key_def)
  have l2: "live done_world (job_key EdgeTTS ''j2'') = None"
    by (simp add: done_world_def live_def job_key_def)
  have p: "get_cache_path EdgeTTS ''j1'' ''j1-seg-0'' = ''/data/cache/j1-seg-0.mp3''"
    by (simp add: get_cache_path_def path_join_def CACHE_DIR_def)
  have fl: "files done_world ''/data/cache/j1-seg-0.mp3'' = Some [1, 2, 3]"
    by (simp add: done_world_def)
  have s: "status done_job = ''completed''"
    "segments done_job = [completed_segment EdgeTTS ''j1'' ''j1-seg-0'' 3 (Some [])]"
    by (simp_all add: done_job_def)
  have i: "seg_id (completed_segment EdgeTTS ''j1'' ''j1-seg-0'' 3 (Some [])) = ''j1-seg-0''"
    "seg_format (completed_segment EdgeTTS ''j1'' ''j1-seg-0'' 3 (Some [])) = ''audio/mpeg''"
    by (simp_all add: completed_segment_def)
  show ?thesis
    using get_segment_audio_check_order [OF f, of EdgeTTS "''j1''" "''j1-seg-0''"]
      get_segment_audio_check_order [OF f, of EdgeTTS "''j1''" "''j1-seg-7''"]
      get_segment_audio_check_order [OF f, of EdgeTTS "''j2''" "''j1-seg-0''"]
    by (simp add: f l l2 p fl s i)
qed

section \<open>Unlisted segment ids\<close>

text \<open>
  C10, as the code has it. With the store answering and the job's record present: a
  segment id that no entry of the record's segments list carries is refused, with 400
  when the job is not \<^verbatim>\<open>completed\<close> and with 404 when it is, and the only effect is the
  read of the record: no cache path is resolved or touched. Whenever a file is served,
  the job is \<^verbatim>\<open>completed\<close>, the id is the id of a listed segment, and the file is the
  one at that segment's cache path.
\<close>

theorem unlisted_segment_never_reaches_cache:
  assumes "faults w = []" and "live w (job_key svc jid) = Some j"
  shows "(\<not> list_ex (\<lambda>seg. seg_id seg = sid) (segments j) \<longrightarrow>
            get_segment_audio svc jid sid w =
              (Inl (if status j \<noteq> ''completed''
                    then HTTPException 400 (''Job is '' @ status j @ '', not completed'')
                    else HTTPException 404 ''Segment not found''),
               emit (StoreGet (job_key svc jid)) w)) \<and>
         (fst (get_segment_audio svc jid sid w) = Inr r \<longrightarrow>
            status j = ''completed'' \<and>
            list_ex (\<lambda>seg. seg_id seg = sid \<and> fr_path r = get_cache_path svc jid (seg_id seg))
              (segments j) \<and>
            files w (fr_path r) = Some (fr_content r))"
  using assms
  by (auto simp: get_segment_audio_ok list_ex_iff split: option.splits if_splits)

theorem unlisted_segment_never_reaches_cache_witness:
  "faults done_world = [] \<and> live done_world (job_key EdgeTTS ''j1'') = Some done_job \<and>
   \<not> list_ex (\<lambda>seg. seg_id seg = ''j1-seg-7'') (segments done_job) \<and>
   get_segment_audio EdgeTTS ''j1'' ''j1-seg-7'' done_world =
     (Inl (HTTPException 404 ''Segment not found''),
      emit (StoreGet (job_key EdgeTTS ''j1'')) done_world) \<and>
   fst (get_segment_audio EdgeTTS ''j1'' ''j1-seg-0'' done_world) =
     Inr \<lparr> fr_path = ''/data/cache/j1-seg-0.mp3'', fr_content = [1, 2, 3],
           fr_media_type = ''audio/mpeg'', fr_filename = ''j1-seg-0.mp3'' \<rparr> \<and>
   list_ex (\<lambda>seg. seg_id seg = ''j1-seg-0'' \<and>
       ''/data/cache/j1-seg-0.mp3'' = get_cache_path EdgeTTS ''j1'' (seg_id seg))
     (segments done_job)"
proof -
  have f: "faults done_world = []" by (simp add: done_world_def)
  have l: "live done_world (job_key EdgeTTS ''j1'') = Some done_job"
    by (simp add: done_world_def live_def job_key_def)
  have p: "get_cache_path EdgeTTS ''j1'' ''j1-seg-0'' = ''/data/cache/j1-seg-0.mp3''"
    by (simp add: get_cache_path_def path_join_def CACHE_DIR_def)
  have fl: "files done_world ''/data/cache/j1-seg-0.mp3'' = Some [1, 2, 3]"
    by (simp add: done_world_def)
  have s: "status done_job = ''completed''"
    "segments done_job = [completed_segment EdgeTTS ''j1'' ''j1-seg-0'' 3 (Some [])]"
    by (simp_all add: done_job_def)
  have i: "seg_id (completed_segment EdgeTTS ''j1'' ''j1-seg-0'' 3 (Some [])) = ''j1-seg-0''"
    by (simp add: completed_segment_def)
  have r: "fst (get_segment_audio EdgeTTS ''j1'' ''j1-seg-0'' done_world) =
     Inr \<lparr> fr_path = ''/data/cache/j1-seg-0.mp3'', fr_content = [1, 2, 3],
           fr_media_type = ''audio/mpeg'', fr_filename = ''j1-seg-0.mp3'' \<rparr>"
    by (simp add: get_segment_audio_ok f l p fl s i)
  show ?thesis
    using unlisted_segment_never_reaches_cache [OF f l, where sid = "''j1-seg-7''"]
      unlisted_segment_never_reaches_cache [OF f l, where sid = "''j1-seg-0''" and r =
        "\<lparr> fr_path = ''/data/cache/j1-seg-0.mp3'', fr_content = [1, 2, 3],
           fr_media_type = ''audio/mpeg'', fr_filename = ''j1-seg-0.mp3'' \<rparr>"]
    by (simp add: f l p s i r)
qed

text \<open>
  The claim as stated fails for a job that is not \<^verbatim>\<open>completed\<close>: right after creation
  the record lists no segment, and asking for any segment id is answered with 400
  (the job is pending), not with a NotFound.
\<close>

theorem unlisted_segment_of_pending_job_is_invalid_state:
  "map_option segments (live pending_world (job_key EdgeTTS ''j1'')) = Some [] \<and>
   fst (get_segment_audio EdgeTTS ''j1'' ''j1-seg-0'' pending_world) =
     Inl (HTTPException 400 ''Job is pending, not completed'') \<and>
   \<not> is_not_found (fst (get_segment_audio EdgeTTS ''j1'' ''j1-seg-0'' pending_world))"
proof -
  have f: "faults pending_world = []"
    by (simp add: pending_world_def create_job_def hello_request_def world0_def strip_def
        isspace_def str_or_def bool_or_False_def store_job_def r_set_def next_fault_def
        JOB_EXPIRY_SECONDS_def Let_def)
  have l: "live pending_world (job_key EdgeTTS ''j1'') =
     Some \<lparr> job_id = ''j1'', status = ''pending'', created_at = 0,
            text_length = length [72::nat, 105], voice = ''en-US-AriaNeural'',
            prefer_phonemes = None, segments = [], error = None \<rparr>"
    by (simp add: pending_world_def create_job_def hello_request_def world0_def strip_def
        isspace_def str_or_def bool_or_False_def store_job_def r_set_def next_fault_def
        JOB_EXPIRY_SECONDS_def Let_def live_def)
  show ?thesis by (simp add: get_segment_audio_ok f l)
qed

section \<open>The steps of delete\<close>

lemma path_exists_eq: "path_exists p w = (files w p \<noteq> None, emit (PathExists p) w)"
  by (simp add: path_exists_def)

text \<open>
  \<^verbatim>\<open>unlink()\<close> on a missing file raises; on a present file it removes it.
\<close>

lemma unlink_missing:
  "files w p = None \<Longrightarrow> unlink p w = (Inl (''[Errno 2] No such file or directory: '' @ p), w)"
  by (simp add: unlink_def)

lemma unlink_present:
  "files w p = Some d \<Longrightarrow>
   unlink p w = (Inr (), emit (FileUnlink p) (w\<lparr>files := (files w)(p := None)\<rparr>))"
  by (simp add: unlink_def)

text \<open>One round of the loop: the file is looked for, and unlinked when it is there.\<close>

lemma unlink_segments_step:
  "unlink_segments svc jid (seg # segs) w =
     unlink_segments svc jid segs
       (if files w (get_cache_path svc jid (seg_id seg)) \<noteq> None
        then emit (FileUnlink (get_cache_path svc jid (seg_id seg)))
               ((emit (PathExists (get_cache_path svc jid (seg_id seg))) w)
                  \<lparr>files := (files w)(get_cache_path svc jid (seg_id seg) := None)\<rparr>)
        else emit (PathExists (get_cache_path svc jid (seg_id seg))) w)"
  by (cases "files w (get_cache_path svc jid (seg_id seg))")
    (simp_all add: path_exists_eq Let_def unlink_def)

text \<open>
  Guarded so, the loop never raises. It changes nothing but the cache files and the
  trace; it adds cache events only, and afterwards no listed segment has a file.
\<close>

lemma unlink_segments_frame:
  "fst (unlink_segments svc jid segs w) = Inr () \<and>
   now (snd (unlink_segments svc jid segs w)) = now w \<and>
   redis (snd (unlink_segments svc jid segs w)) = redis w \<and>
   faults (snd (unlink_segments svc jid segs w)) = faults w \<and>
   (\<exists>evs. trace (snd (unlink_segments svc jid segs w)) = trace w @ evs \<and>
      list_all cache_event evs)"
proof (induction segs arbitrary: w)
  case Nil
  then show ?case by simp
next
  case (Cons seg segs)
  let ?p = "get_cache_path svc jid (seg_id seg)"
  let ?w1 = "if files w ?p \<noteq> None
      then emit (FileUnlink ?p) ((emit (PathExists ?p) w)\<lparr>files := (files w)(?p := None)\<rparr>)
      else emit (PathExists ?p) w"
  have step: "unlink_segments svc jid (seg # segs) w = unlink_segments svc jid segs ?w1"
    by (rule unlink_segments_step)
  obtain evs where e: "trace (snd (unlink_segments svc jid segs ?w1)) = trace ?w1 @ evs"
      "list_all cache_event evs"
    using Cons.IH [of ?w1] by blast
  obtain evs1 where e1: "trace ?w1 = trace w @ evs1" "list_all cache_event evs1"
    by (cases "files w ?p") auto
  have "trace (snd (unlink_segments svc jid segs ?w1)) = trace w @ (evs1 @ evs)"
    using e e1 by simp
  moreover have "list_all cache_event (evs1 @ evs)" using e e1 by simp
  ultimately have "\<exists>evs. trace (snd (unlink_segments svc jid segs ?w1)) = trace w @ evs \<and>
      list_all cache_event evs" by blast
  moreover have "fst (unlink_segments svc jid segs ?w1) = Inr ()"
    "now (snd (unlink_segments svc jid segs ?w1)) = now w"
    "redis (snd (unlink_segments svc jid segs ?w1)) = redis w"
    "faults (snd (unlink_segments svc jid segs ?w1)) = faults w"
    using Cons.IH [of ?w1] by (auto split: if_splits)
  ultimately show ?case unfolding step by blast
qed

lemma unlink_segments_files:
  "files (snd (unlink_segments svc jid segs w)) p =
     (if list_ex (\<lambda>seg. get_cache_path svc jid (seg_id seg) = p) segs then None else files w p)"
proof (induction segs arbitrary: w)
  case Nil
  then show ?case by simp
next
  case (Cons seg segs)
  show ?case
    unfolding unlink_segments_step by (auto simp: Cons.IH)
qed

lemma delete_job_ok:
  assumes "faults w = []"
  shows "delete_job svc jid w =
     (case live w (job_key svc jid) of
        None \<Rightarrow> (Inl (HTTPException 404 ''Job not found''), emit (StoreGet (job_key svc jid)) w)
      | Some j \<Rightarrow>
          (Inr ''Job deleted successfully'',
           emit (StoreDelete (job_key svc jid))
             ((snd (unlink_segments svc jid (segments j) (emit (StoreGet (job_key svc jid)) w)))
                \<lparr>redis := (redis w)((job_key svc jid) := None)\<rparr>)))"
proof (cases "live w (job_key svc jid)")
  case None
  then show ?thesis using assms by (simp add: delete_job_def get_job_def r_get_ok)
next
  case (Some j)
  let ?w1 = "emit (StoreGet (job_key svc jid)) w"
  obtain w2 where us: "unlink_segments svc jid (segments j) ?w1 = (Inr (), w2)"
    using unlink_segments_frame [of svc jid "segments j" ?w1]
    by (cases "unlink_segments svc jid (segments j) ?w1") auto
  have f2: "faults w2 = []"
    using unlink_segments_frame [of svc jid "segments j" ?w1] assms us by simp
  have r2: "redis w2 = redis w"
    using unlink_segments_frame [of svc jid "segments j" ?w1] us by simp
  show ?thesis using assms Some
    by (simp add: delete_job_def get_job_def r_get_ok us r_delete_ok [OF f2] r2)
qed

section \<open>The executor, step by step\<close>

lemma cache_event_not_store: "list_all cache_event evs \<Longrightarrow> list_all (\<lambda>e. \<not> store_event e) evs"
proof (induction evs)
  case Nil
  then show ?case by simp
next
  case (Cons e evs)
  then show ?case by (cases e) auto
qed

lemma r_set_effect:
  assumes "r_set k j ex w = (r, w')"
  shows "now w' = now w \<and> files w' = files w \<and> faults w' = tl (faults w) \<and>
         (case r of
            Inl m \<Rightarrow> redis w' = redis w \<and> trace w' = trace w \<and> faults w \<noteq> []
          | Inr u \<Rightarrow> redis w' = (redis w)(k \<mapsto> (j, now w + ex)) \<and>
                      trace w' = trace w @ [StoreSet k j ex])"
  using assms
  by (auto simp: r_set_def next_fault_def split: list.splits option.splits)

lemma r_get_effect:
  assumes "r_get k w = (r, w')"
  shows "now w' = now w \<and> files w' = files w \<and> redis w' = redis w \<and>
         faults w' = tl (faults w) \<and>
         (case r of
            Inl m \<Rightarrow> trace w' = trace w \<and> faults w \<noteq> []
          | Inr v \<Rightarrow> v = live w k \<and> trace w' = trace w @ [StoreGet k])"
  using assms
  by (auto simp: r_get_def next_fault_def live_def split: list.splits option.splits)

text \<open>
  The second stretch is one synthesis call, whose events are the call and cache events,
  followed by one write of the record: as \<^verbatim>\<open>completed\<close> with one segment when the file is
  there, as \<^verbatim>\<open>failed\<close> with the fixed message otherwise. It never reads the store.
\<close>

lemma finish_job_shape:
  "\<exists>w1 j evs.
     finish_job be jid txt prefer jd w =
       r_set (job_key (service_of be) jid) j JOB_EXPIRY_SECONDS w1 \<and>
     faults w1 = faults w \<and> now w1 = now w \<and> redis w1 = redis w \<and>
     trace w1 = trace w @
       BackendCall txt (voice jd) (get_cache_path (service_of be) jid (generate_segment_id jid 0)) # evs \<and>
     list_all cache_event evs \<and>
     ((\<exists>d t. j = jd\<lparr>status := ''completed'',
                   segments := [completed_segment (service_of be) jid (generate_segment_id jid 0)
                                  (length d) t]\<rparr> \<and>
             files w1 (get_cache_path (service_of be) jid (generate_segment_id jid 0)) = Some d) \<or>
      j = jd\<lparr>status := ''failed'', error := Some ''Synthesis failed''\<rparr>)"
proof -
  let ?p = "get_cache_path (service_of be) jid (generate_segment_id jid 0)"
  obtain ok t w0 where s: "synthesize be txt (voice jd) ?p prefer w = ((ok, t), w0)"
    by (cases "synthesize be txt (voice jd) ?p prefer w") auto
  from synthesize_frame [OF s] obtain evs0 where
    fr: "now w0 = now w" "redis w0 = redis w" "faults w0 = faults w"
      "trace w0 = trace w @ BackendCall txt (voice jd) ?p # evs0" "list_all cache_event evs0"
    by blast
  show ?thesis
  proof (cases "ok \<and> files w0 ?p \<noteq> None")
    case True
    then obtain d where d: "files w0 ?p = Some d" by auto
    let ?w1 = "emit (FileStat ?p) (emit (PathExists ?p) w0)"
    let ?j = "jd\<lparr>status := ''completed'',
                segments := [completed_segment (service_of be) jid (generate_segment_id jid 0)
                               (length d) t]\<rparr>"
    have "finish_job be jid txt prefer jd w =
        r_set (job_key (service_of be) jid) ?j JOB_EXPIRY_SECONDS ?w1"
      using True d by (simp add: finish_job_def Let_def s path_exists_eq stat_size_def)
    moreover have "faults ?w1 = faults w" "now ?w1 = now w" "redis ?w1 = redis w"
      using fr by simp_all
    moreover have "trace ?w1 = trace w @ BackendCall txt (voice jd) ?p #
        (evs0 @ [PathExists ?p, FileStat ?p])"
      using fr by simp
    moreover have "list_all cache_event (evs0 @ [PathExists ?p, FileStat ?p])"
      using fr by simp
    moreover have "files ?w1 ?p = Some d" using d by simp
    ultimately show ?thesis by blast
  next
    case False
    let ?w1 = "if ok then emit (PathExists ?p) w0 else w0"
    let ?j = "jd\<lparr>status := ''failed'', error := Some ''Synthesis failed''\<rparr>"
    have "finish_job be jid txt prefer jd w =
        r_set (job_key (service_of be) jid) ?j JOB_EXPIRY_SECONDS ?w1"
      using False by (simp add: finish_job_def Let_def s path_exists_eq)
    moreover have "faults ?w1 = faults w" "now ?w1 = now w" "redis ?w1 = redis w"
      using fr by simp_all
    moreover have "trace ?w1 = trace w @ BackendCall txt (voice jd) ?p #
        (evs0 @ (if ok then [PathExists ?p] else []))"
      using fr by simp
    moreover have "list_all cache_event (evs0 @ (if ok then [PathExists ?p] else []))"
      using fr by simp
    ultimately show ?thesis by blast
  qed
qed

section \<open>The executor with the store answering\<close>

lemma accept_job_ok:
  assumes "faults w = []"
  shows "accept_job svc jid w =
     (case live w (job_key svc jid) of
        None \<Rightarrow> (Inr None, emit (StoreGet (job_key svc jid)) w)
      | Some r \<Rightarrow>
          (Inr (Some (r\<lparr>status := ''processing''\<rparr>)),
           emit (StoreSet (job_key svc jid) (r\<lparr>status := ''processing''\<rparr>) JOB_EXPIRY_SECONDS)
             ((emit (StoreGet (job_key svc jid)) w)
                \<lparr>redis := (redis w)(job_key svc jid \<mapsto>
                    (r\<lparr>status := ''processing''\<rparr>, now w + JOB_EXPIRY_SECONDS))\<rparr>)))"
  using assms
  by (simp add: accept_job_def r_get_ok r_set_ok Let_def split: option.splits)

lemma complete_job_ok:
  assumes "faults w = []"
  shows "\<exists>w1 j evs.
     r_set (job_key (service_of be) jid) j JOB_EXPIRY_SECONDS w1 =
       (Inr (), complete_job be jid tx pp jd w) \<and>
     faults w1 = [] \<and> now w1 = now w \<and> redis w1 = redis w \<and>
     trace w1 = trace w @
       BackendCall tx (voice jd) (get_cache_path (service_of be) jid (generate_segment_id jid 0)) # evs \<and>
     list_all cache_event evs \<and>
     ((\<exists>d t. j = jd\<lparr>status := ''completed'',
                   segments := [completed_segment (service_of be) jid (generate_segment_id jid 0)
                                  (length d) t]\<rparr> \<and>
             files w1 (get_cache_path (service_of be) jid (generate_segment_id jid 0)) = Some d) \<or>
      j = jd\<lparr>status := ''failed'', error := Some ''Synthesis failed''\<rparr>)"
proof -
  obtain w1 j evs where
    a: "finish_job be jid tx pp jd w =
          r_set (job_key (service_of be) jid) j JOB_EXPIRY_SECONDS w1"
    and b: "faults w1 = faults w" "now w1 = now w" "redis w1 = redis w"
      "trace w1 = trace w @
        BackendCall tx (voice jd) (get_cache_path (service_of be) jid (generate_segment_id jid 0)) # evs"
      "list_all cache_event evs"
    and c: "(\<exists>d t. j = jd\<lparr>status := ''completed'',
                   segments := [completed_segment (service_of be) jid (generate_segment_id jid 0)
                                  (length d) t]\<rparr> \<and>
             files w1 (get_cache_path (service_of be) jid (generate_segment_id jid 0)) = Some d) \<or>
      j = jd\<lparr>status := ''failed'', error := Some ''Synthesis failed''\<rparr>"
    using finish_job_shape [of be jid tx pp jd w] by blast
  have f1: "faults w1 = []" using b assms by simp
  have "complete_job be jid tx pp jd w =
      snd (r_set (job_key (service_of be) jid) j JOB_EXPIRY_SECONDS w1)"
    by (simp add: complete_job_def a r_set_ok [OF f1])
  then have "r_set (job_key (service_of be) jid) j JOB_EXPIRY_SECONDS w1 =
      (Inr (), complete_job be jid tx pp jd w)"
    by (simp add: r_set_ok [OF f1])
  with f1 b c show ?thesis by blast
qed

lemma live_after_set:
  assumes "r_set k j JOB_EXPIRY_SECONDS w1 = (Inr (), w')"
  shows "live w' k = Some j"
  using r_set_effect [OF assms] by (simp add: live_def JOB_EXPIRY_SECONDS_def)

lemma completed_segment_fields [simp]:
  "seg_id (completed_segment svc jid sid sz t) = sid"
  "seg_format (completed_segment svc jid sid sz t) = audio_format svc"
  "file_size (completed_segment svc jid sid sz t) = sz"
  "seg_status (completed_segment svc jid sid sz t) = ''completed''"
  by (simp_all add: completed_segment_def)

section \<open>Write before publish\<close>


section \<open>Concrete runs\<close>

lemma pending_world_facts:
  "faults pending_world = []"
  "live pending_world (job_key EdgeTTS ''j1'') =
     Some \<lparr> job_id = ''j1'', status = ''pending'', created_at = 0,
            text_length = length [72::nat, 105], voice = ''en-US-AriaNeural'',
            prefer_phonemes = None, segments = [], error = None \<rparr>"
  by (simp_all add: pending_world_def create_job_def hello_request_def world0_def strip_def
      isspace_def str_or_def bool_or_False_def store_job_def r_set_def next_fault_def
      JOB_EXPIRY_SECONDS_def Let_def live_def)

text \<open>
  The edge service: a stream that ends without an exception and holds at least one audio
  chunk, with the output file opening, ends in the \<^verbatim>\<open>completed\<close> write, whatever the
  chunks hold.
\<close>

lemma finish_job_edge_success:
  assumes "stream_error e = None" and "write_error e = None"
    and "fst (collect (stream_chunks e)) \<noteq> []"
  shows "finish_job (EdgeBackend e) jid tx pp jd w =
     r_set (job_key EdgeTTS jid)
       (jd\<lparr>status := ''completed'',
           segments := [completed_segment EdgeTTS jid (generate_segment_id jid 0)
              (length (concat (fst (collect (stream_chunks e)))))
              (Some (snd (collect (stream_chunks e))))]\<rparr>)
       JOB_EXPIRY_SECONDS
       (emit (FileStat (get_cache_path EdgeTTS jid (generate_segment_id jid 0)))
          (emit (PathExists (get_cache_path EdgeTTS jid (generate_segment_id jid 0)))
             (write_file (get_cache_path EdgeTTS jid (generate_segment_id jid 0))
                (concat (fst (collect (stream_chunks e))))
                (emit (BackendCall tx (voice jd)
                         (get_cache_path EdgeTTS jid (generate_segment_id jid 0))) w))))"
proof -
  let ?p = "get_cache_path EdgeTTS jid (generate_segment_id jid 0)"
  obtain a t where c: "collect (stream_chunks e) = (a, t)"
    by (cases "collect (stream_chunks e)") auto
  with assms have ne: "a \<noteq> []" by simp
  have s: "synthesize_text_with_timing e tx (voice jd) ?p w =
      ((True, t), write_file ?p (concat a) (emit (BackendCall tx (voice jd) ?p) w))"
    using assms(1,2) c ne by (simp add: synthesize_text_with_timing_def Let_def)
  show ?thesis
    by (simp add: finish_job_def Let_def s c path_exists_eq stat_size_def)
qed

section \<open>Delete\<close>

text \<open>
  The second stretch of the executor, the store answering, always ends with the record
  written under the job's key, in a terminal state, whatever was there before.
\<close>

lemma complete_job_writes_terminal:
  assumes "faults w = []"
  shows "\<exists>j. redis (complete_job be jid tx pp jd w) (job_key (service_of be) jid) =
              Some (j, now w + JOB_EXPIRY_SECONDS) \<and>
            live (complete_job be jid tx pp jd w) (job_key (service_of be) jid) = Some j \<and>
            (status j = ''completed'' \<or> status j = ''failed'') \<and>
            job_id j = job_id jd \<and>
            faults (complete_job be jid tx pp jd w) = [] \<and>
            now (complete_job be jid tx pp jd w) = now w"
proof -
  let ?svc = "service_of be"
  let ?sid = "generate_segment_id jid 0"
  obtain w1 j evs where
    s: "r_set (job_key ?svc jid) j JOB_EXPIRY_SECONDS w1 = (Inr (), complete_job be jid tx pp jd w)"
    and f1: "faults w1 = []" and n1: "now w1 = now w"
    and c: "(\<exists>d t. j = jd\<lparr>status := ''completed'',
                   segments := [completed_segment ?svc jid ?sid (length d) t]\<rparr> \<and>
               files w1 (get_cache_path ?svc jid ?sid) = Some d) \<or>
            j = jd\<lparr>status := ''failed'', error := Some ''Synthesis failed''\<rparr>"
    using complete_job_ok [OF assms, of be jid tx pp jd] by blast
  have "redis (complete_job be jid tx pp jd w) (job_key ?svc jid) =
      Some (j, now w + JOB_EXPIRY_SECONDS)"
    using r_set_effect [OF s] n1 by simp
  moreover have "live (complete_job be jid tx pp jd w) (job_key ?svc jid) = Some j"
    by (rule live_after_set [OF s])
  moreover have "status j = ''completed'' \<or> status j = ''failed''" using c by auto
  moreover have "job_id j = job_id jd" using c by auto
  moreover have "faults (complete_job be jid tx pp jd w) = []"
    "now (complete_job be jid tx pp jd w) = now w"
    using r_set_effect [OF s] f1 n1 by simp_all
  ultimately show ?thesis by blast
qed

text \<open>
  C6, as the code has it. With the store answering: deleting a job whose record is absent
  when the call is made answers 404 and deletes nothing. Deleting a present job succeeds
  whether or not its files exist (a missing file is skipped by the \<^verbatim>\<open>exists()\<close> test, so
  \<^verbatim>\<open>unlink()\<close> never raises); the run reads the record, then touches only the cache, then
  deletes the record as its last effect; afterwards no listed segment has a cache file,
  every other file is as it was, the record is gone, and deleting the same job again,
  with no write of the record in between, answers 404. If the job's executor was
  waiting for its synthesis and now runs its second stretch, its terminal write puts the
  record back, and deleting the job after that succeeds again.
\<close>

theorem delete_job_cache_then_record:
  assumes "faults w = []"
  shows "(live w (job_key svc jid) = None \<longrightarrow>
            delete_job svc jid w =
              (Inl (HTTPException 404 ''Job not found''), emit (StoreGet (job_key svc jid)) w)) \<and>
         (live w (job_key svc jid) = Some j \<longrightarrow>
            (\<exists>w' evs. delete_job svc jid w = (Inr ''Job deleted successfully'', w') \<and>
               trace w' = trace w @ StoreGet (job_key svc jid) # evs @ [StoreDelete (job_key svc jid)] \<and>
               list_all cache_event evs \<and>
               redis w' = (redis w)((job_key svc jid) := None) \<and>
               list_all (\<lambda>seg. files w' (get_cache_path svc jid (seg_id seg)) = None) (segments j) \<and>
               (\<forall>p. files w' p =
                  (if list_ex (\<lambda>seg. get_cache_path svc jid (seg_id seg) = p) (segments j)
                   then None else files w p)) \<and>
               fst (delete_job svc jid w') = Inl (HTTPException 404 ''Job not found'') \<and>
               (service_of be = svc \<longrightarrow>
                  fst (delete_job svc jid (complete_job be jid tx pp jd w')) =
                    Inr ''Job deleted successfully'')))"
proof (intro conjI impI)
  assume "live w (job_key svc jid) = None"
  then show "delete_job svc jid w =
      (Inl (HTTPException 404 ''Job not found''), emit (StoreGet (job_key svc jid)) w)"
    using assms by (simp add: delete_job_ok)
next
  assume l: "live w (job_key svc jid) = Some j"
  let ?k = "job_key svc jid"
  let ?w1 = "emit (StoreGet ?k) w"
  let ?w2 = "snd (unlink_segments svc jid (segments j) ?w1)"
  let ?w' = "emit (StoreDelete ?k) (?w2\<lparr>redis := (redis w)(?k := None)\<rparr>)"
  have d: "delete_job svc jid w = (Inr ''Job deleted successfully'', ?w')"
    using assms l by (simp add: delete_job_ok)
  obtain evs where e: "trace ?w2 = trace ?w1 @ evs" "list_all cache_event evs"
    using unlink_segments_frame [of svc jid "segments j" ?w1] by blast
  have fr: "now ?w2 = now w" "faults ?w2 = faults w"
    using unlink_segments_frame [of svc jid "segments j" ?w1] by simp_all
  have t: "trace ?w' = trace w @ StoreGet ?k # evs @ [StoreDelete ?k]"
    using e by simp
  have r: "redis ?w' = (redis w)(?k := None)" by simp
  have fl: "\<forall>p. files ?w' p =
      (if list_ex (\<lambda>seg. get_cache_path svc jid (seg_id seg) = p) (segments j)
       then None else files w p)"
    by (simp add: unlink_segments_files)
  have gone: "list_all (\<lambda>seg. files ?w' (get_cache_path svc jid (seg_id seg)) = None) (segments j)"
    by (auto simp: unlink_segments_files list_all_iff list_ex_iff)
  have f': "faults ?w' = []" using fr assms by simp
  have l': "live ?w' ?k = None" by (simp add: live_def)
  have again: "fst (delete_job svc jid ?w') = Inl (HTTPException 404 ''Job not found'')"
    using f' l' by (simp add: delete_job_ok)
  have recreated: "service_of be = svc \<longrightarrow>
      fst (delete_job svc jid (complete_job be jid tx pp jd ?w')) = Inr ''Job deleted successfully''"
  proof
    assume s: "service_of be = svc"
    obtain j2 where "live (complete_job be jid tx pp jd ?w') (job_key (service_of be) jid) = Some j2"
      and "faults (complete_job be jid tx pp jd ?w') = []"
      using complete_job_writes_terminal [OF f', of be jid tx pp jd] by blast
    then show "fst (delete_job svc jid (complete_job be jid tx pp jd ?w')) =
        Inr ''Job deleted successfully''"
      using s by (simp add: delete_job_ok)
  qed
  show "\<exists>w' evs. delete_job svc jid w = (Inr ''Job deleted successfully'', w') \<and>
      trace w' = trace w @ StoreGet ?k # evs @ [StoreDelete ?k] \<and>
      list_all cache_event evs \<and>
      redis w' = (redis w)(?k := None) \<and>
      list_all (\<lambda>seg. files w' (get_cache_path svc jid (seg_id seg)) = None) (segments j) \<and>
      (\<forall>p. files w' p =
         (if list_ex (\<lambda>seg. get_cache_path svc jid (seg_id seg) = p) (segments j)
          then None else files w p)) \<and>
      fst (delete_job svc jid w') = Inl (HTTPException 404 ''Job not found'') \<and>
      (service_of be = svc \<longrightarrow>
         fst (delete_job svc jid (complete_job be jid tx pp jd w')) =
           Inr ''Job deleted successfully'')"
    using d t e(2) r fl gone again recreated by blast
qed

theorem delete_job_cache_then_record_witness:
  "faults world0 = [] \<and> live world0 (job_key EdgeTTS ''j1'') = None \<and>
   delete_job EdgeTTS ''j1'' world0 =
     (Inl (HTTPException 404 ''Job not found''), emit (StoreGet (job_key EdgeTTS ''j1'')) world0) \<and>
   faults done_world = [] \<and> live done_world (job_key EdgeTTS ''j1'') = Some done_job \<and>
   (\<exists>w' evs. delete_job EdgeTTS ''j1'' done_world = (Inr ''Job deleted successfully'', w') \<and>
      trace w' = trace done_world @
        StoreGet (job_key EdgeTTS ''j1'') # evs @ [StoreDelete (job_key EdgeTTS ''j1'')] \<and>
      list_all cache_event evs \<and>
      files w' ''/data/cache/j1-seg-0.mp3'' = None \<and>
      fst (delete_job EdgeTTS ''j1'' w') = Inl (HTTPException 404 ''Job not found'') \<and>
      fst (delete_job EdgeTTS ''j1''
             (complete_job (EdgeBackend good_engine) ''j1'' [72, 105] False done_job w')) =
        Inr ''Job deleted successfully'') \<and>
   files (done_world\<lparr>files := Map.empty\<rparr>) ''/data/cache/j1-seg-0.mp3'' = None \<and>
   fst (delete_job EdgeTTS ''j1'' (done_world\<lparr>files := Map.empty\<rparr>)) =
     Inr ''Job deleted successfully''"
proof -
  have fm: "faults (done_world\<lparr>files := Map.empty\<rparr>) = []" by (simp add: done_world_def)
  have lm: "live (done_world\<lparr>files := Map.empty\<rparr>) (job_key EdgeTTS ''j1'') = Some done_job"
    by (simp add: done_world_def live_def job_key_def)
  have m: "fst (delete_job EdgeTTS ''j1'' (done_world\<lparr>files := Map.empty\<rparr>)) =
     Inr ''Job deleted successfully''"
    using delete_job_cache_then_record [OF fm, where svc = EdgeTTS and jid = "''j1''"
        and j = done_job and be = "EdgeBackend good_engine" and tx = "[72, 105]" and pp = False
        and jd = done_job] lm
    by auto
  have sv: "service_of (EdgeBackend good_engine) = EdgeTTS" by simp
  have f0: "faults world0 = []" by (simp add: world0_def)
  have l0: "live world0 (job_key EdgeTTS ''j1'') = None" by (simp add: world0_def live_def)
  have f: "faults done_world = []" by (simp add: done_world_def)
  have l: "live done_world (job_key EdgeTTS ''j1'') = Some done_job"
    by (simp add: done_world_def live_def job_key_def)
  have p: "get_cache_path EdgeTTS ''j1'' ''j1-seg-0'' = ''/data/cache/j1-seg-0.mp3''"
    by (simp add: get_cache_path_def path_join_def CACHE_DIR_def)
  have s: "segments done_job = [completed_segment EdgeTTS ''j1'' ''j1-seg-0'' 3 (Some [])]"
    by (simp add: done_job_def)
  have i: "seg_id (completed_segment EdgeTTS ''j1'' ''j1-seg-0'' 3 (Some [])) = ''j1-seg-0''"
    by (simp add: completed_segment_def)
  have a: "delete_job EdgeTTS ''j1'' world0 =
     (Inl (HTTPException 404 ''Job not found''), emit (StoreGet (job_key EdgeTTS ''j1'')) world0)"
    using delete_job_cache_then_record [OF f0, where svc = EdgeTTS and jid = "''j1''"
        and j = done_job and be = "EdgeBackend good_engine" and tx = "[72, 105]" and pp = False
        and jd = done_job] l0
    by simp
  obtain w' evs where b: "delete_job EdgeTTS ''j1'' done_world = (Inr ''Job deleted successfully'', w')"
      "trace w' = trace done_world @
        StoreGet (job_key EdgeTTS ''j1'') # evs @ [StoreDelete (job_key EdgeTTS ''j1'')]"
      "list_all cache_event evs"
      "list_all (\<lambda>seg. files w' (get_cache_path EdgeTTS ''j1'' (seg_id seg)) = None) (segments done_job)"
      "fst (delete_job EdgeTTS ''j1'' w') = Inl (HTTPException 404 ''Job not found'')"
      "fst (delete_job EdgeTTS ''j1''
             (complete_job (EdgeBackend good_engine) ''j1'' [72, 105] False done_job w')) =
        Inr ''Job deleted successfully''"
    using delete_job_cache_then_record [OF f, where svc = EdgeTTS and jid = "''j1''"
        and j = done_job and be = "EdgeBackend good_engine" and tx = "[72, 105]" and pp = False
        and jd = done_job] l sv
    by blast
  from b(4) have "files w' ''/data/cache/j1-seg-0.mp3'' = None" by (simp add: s i p)
  with f0 l0 f l a b m show ?thesis by auto
qed

text \<open>
  The claim as stated fails when the job is deleted while it is being processed: the
  delete succeeds and removes the record, the executor's terminal write puts the record
  back, and deleting the already-deleted job a second time succeeds again.
\<close>

theorem delete_twice_succeeds_after_terminal_write:
  "fst (delete_job EdgeTTS ''j1'' (snd (accept_job EdgeTTS ''j1'' pending_world))) =
     Inr ''Job deleted successfully'' \<and>
   live (delete_during_synthesis (snd (accept_job EdgeTTS ''j1'' pending_world)))
     (job_key EdgeTTS ''j1'') = None \<and>
   fst (delete_job EdgeTTS ''j1'' raced_world) = Inr ''Job deleted successfully''"
proof -
  let ?k = "job_key EdgeTTS ''j1''"
  have f: "faults pending_world = []" by (rule pending_world_facts)
  obtain r where r: "live pending_world ?k = Some r"
    using pending_world_facts(2) by blast
  let ?jd = "r\<lparr>status := ''processing''\<rparr>"
  let ?w1 = "emit (StoreSet ?k ?jd JOB_EXPIRY_SECONDS)
      ((emit (StoreGet ?k) pending_world)
         \<lparr>redis := (redis pending_world)(?k \<mapsto> (?jd, now pending_world + JOB_EXPIRY_SECONDS))\<rparr>)"
  let ?w2 = "emit (StoreDelete ?k)
      ((snd (unlink_segments EdgeTTS ''j1'' (segments ?jd) (emit (StoreGet ?k) ?w1)))
         \<lparr>redis := (redis ?w1)(?k := None)\<rparr>)"
  have a: "accept_job EdgeTTS ''j1'' pending_world = (Inr (Some ?jd), ?w1)"
    using f r by (simp add: accept_job_ok)
  have f1: "faults ?w1 = []" using f by simp
  have l1: "live ?w1 ?k = Some ?jd" by (simp add: live_def JOB_EXPIRY_SECONDS_def)
  have d1: "delete_job EdgeTTS ''j1'' ?w1 = (Inr ''Job deleted successfully'', ?w2)"
    unfolding delete_job_ok [OF f1] l1 by simp
  have f2: "faults ?w2 = []"
    using unlink_segments_frame [of EdgeTTS "''j1''" "segments ?jd" "emit (StoreGet ?k) ?w1"] f
    by simp
  have l2: "live ?w2 ?k = None" by (simp add: live_def)
  have run: "raced_world = complete_job (EdgeBackend good_engine) ''j1'' [72, 105] False ?jd ?w2"
    unfolding raced_world_def process_job_interleaved_def delete_during_synthesis_def
    by (simp add: a d1)
  obtain j where j: "live raced_world ?k = Some j" "faults raced_world = []"
    using complete_job_writes_terminal [OF f2, of "EdgeBackend good_engine" "''j1''" "[72, 105]"
        False ?jd] run by auto
  have d2: "fst (delete_job EdgeTTS ''j1'' raced_world) = Inr ''Job deleted successfully''"
    using j by (simp add: delete_job_ok)
  have s1: "snd (accept_job EdgeTTS ''j1'' pending_world) = ?w1" by (simp add: a)
  show ?thesis unfolding s1 delete_during_synthesis_def d1 using l2 d2 by simp
qed

section \<open>A complete run of the edge executor\<close>

text \<open>
  A whole run of the edge executor on a present record, the store answering, with such a
  stream: the record ends \<^verbatim>\<open>completed\<close>, its segment records the number of bytes written,
  and the cache file holds the chunks in order.
\<close>

lemma edge_run_completed:
  assumes "faults w = []" and "live w (job_key EdgeTTS jid) = Some r"
    and "stream_error e = None" and "write_error e = None"
    and "fst (collect (stream_chunks e)) \<noteq> []"
  shows "live (process_job_with_new_redis (EdgeBackend e) jid tx v pp w) (job_key EdgeTTS jid) =
           Some (r\<lparr>status := ''completed'',
                   segments := [completed_segment EdgeTTS jid (generate_segment_id jid 0)
                      (length (concat (fst (collect (stream_chunks e)))))
                      (Some (snd (collect (stream_chunks e))))]\<rparr>) \<and>
         files (process_job_with_new_redis (EdgeBackend e) jid tx v pp w)
           (get_cache_path EdgeTTS jid (generate_segment_id jid 0)) =
           Some (concat (fst (collect (stream_chunks e)))) \<and>
         faults (process_job_with_new_redis (EdgeBackend e) jid tx v pp w) = []"
proof -
  let ?k = "job_key EdgeTTS jid"
  let ?jd = "r\<lparr>status := ''processing''\<rparr>"
  let ?p = "get_cache_path EdgeTTS jid (generate_segment_id jid 0)"
  let ?d = "concat (fst (collect (stream_chunks e)))"
  let ?w1 = "emit (StoreSet ?k ?jd JOB_EXPIRY_SECONDS)
      ((emit (StoreGet ?k) w)\<lparr>redis := (redis w)(?k \<mapsto> (?jd, now w + JOB_EXPIRY_SECONDS))\<rparr>)"
  let ?w2 = "emit (FileStat ?p) (emit (PathExists ?p) (write_file ?p ?d
      (emit (BackendCall tx (voice ?jd) ?p) ?w1)))"
  let ?j = "?jd\<lparr>status := ''completed'',
           segments := [completed_segment EdgeTTS jid (generate_segment_id jid 0) (length ?d)
              (Some (snd (collect (stream_chunks e))))]\<rparr>"
  let ?w' = "process_job_with_new_redis (EdgeBackend e) jid tx v pp w"
  have a: "accept_job EdgeTTS jid w = (Inr (Some ?jd), ?w1)"
    using assms(1,2) by (simp add: accept_job_ok)
  have f1: "faults ?w1 = []" using assms(1) by simp
  have fin: "finish_job (EdgeBackend e) jid tx pp ?jd ?w1 = r_set ?k ?j JOB_EXPIRY_SECONDS ?w2"
    by (rule finish_job_edge_success [OF assms(3,4,5)])
  have f2: "faults ?w2 = []" using f1 by simp
  have run: "?w' = complete_job (EdgeBackend e) jid tx pp ?jd ?w1"
    by (simp add: process_job_with_new_redis_def process_job_interleaved_def a)
  have s: "r_set ?k ?j JOB_EXPIRY_SECONDS ?w2 = (Inr (), ?w')"
    unfolding run complete_job_def fin using assms(1) by (simp add: r_set_ok)
  have "live ?w' ?k = Some ?j" by (rule live_after_set [OF s])
  moreover have "files ?w' ?p = Some ?d" "faults ?w' = []"
    using r_set_effect [OF s] f2 by simp_all
  ultimately show ?thesis by simp
qed



section \<open>Completed with an empty file\<close>

lemma espeak_pending_world_facts:
  "faults espeak_pending_world = []"
  "\<exists>r. live espeak_pending_world (job_key EspeakNG ''j1'') = Some r"
  by (simp_all add: espeak_pending_world_def create_job_def hello_request_def world0_def
      strip_def isspace_def str_or_def bool_or_False_def store_job_def r_set_def next_fault_def
      JOB_EXPIRY_SECONDS_def Let_def live_def)

lemma synthesize_text_empty_wav:
  assumes "wav_written e = Some []"
  shows "\<not> fst (synthesize_text e tx v p pp w)"
proof (cases "run_result e")
  case (Inl m)
  then show ?thesis by (simp add: synthesize_text_def Let_def)
next
  case (Inr c)
  then show ?thesis using assms
    by (simp add: synthesize_text_def Let_def path_exists_eq stat_size_def)
qed

lemma finish_job_espeak_empty_wav:
  assumes "wav_written e = Some []"
  shows "\<exists>w2. finish_job (EspeakBackend e) jid tx pp jd w =
           r_set (job_key EspeakNG jid)
             (jd\<lparr>status := ''failed'', error := Some ''Synthesis failed''\<rparr>)
             JOB_EXPIRY_SECONDS w2 \<and>
         faults w2 = faults w"
proof -
  let ?p = "get_cache_path EspeakNG jid (generate_segment_id jid 0)"
  obtain w2 where s: "synthesize_text e tx (voice jd) ?p pp w = (False, w2)"
    using synthesize_text_empty_wav [OF assms, of tx "voice jd" ?p pp w]
    by (cases "synthesize_text e tx (voice jd) ?p pp w") auto
  have "faults w2 = faults w" using synthesize_text_frame [OF s] by simp
  moreover have "finish_job (EspeakBackend e) jid tx pp jd w =
      r_set (job_key EspeakNG jid)
        (jd\<lparr>status := ''failed'', error := Some ''Synthesis failed''\<rparr>) JOB_EXPIRY_SECONDS w2"
    by (simp add: finish_job_def Let_def s)
  ultimately show ?thesis by blast
qed

text \<open>
  Espeak, the store answering: when the process leaves a file of no bytes, the run ends
  \<^verbatim>\<open>failed\<close> with the fixed message, whatever the process returned.
\<close>

lemma espeak_run_empty_wav_failed:
  assumes "faults w = []" and "live w (job_key EspeakNG jid) = Some r"
    and "wav_written e = Some []"
  shows "live (process_job_with_new_redis (EspeakBackend e) jid tx v pp w) (job_key EspeakNG jid) =
           Some (r\<lparr>status := ''failed'', error := Some ''Synthesis failed''\<rparr>)"
proof -
  let ?k = "job_key EspeakNG jid"
  let ?jd = "r\<lparr>status := ''processing''\<rparr>"
  let ?p = "get_cache_path EspeakNG jid (generate_segment_id jid 0)"
  let ?w1 = "emit (StoreSet ?k ?jd JOB_EXPIRY_SECONDS)
      ((emit (StoreGet ?k) w)\<lparr>redis := (redis w)(?k \<mapsto> (?jd, now w + JOB_EXPIRY_SECONDS))\<rparr>)"
  let ?j = "?jd\<lparr>status := ''failed'', error := Some ''Synthesis failed''\<rparr>"
  let ?w' = "process_job_with_new_redis (EspeakBackend e) jid tx v pp w"
  have a: "accept_job EspeakNG jid w = (Inr (Some ?jd), ?w1)"
    using assms(1,2) by (simp add: accept_job_ok)
  obtain w2 where fin: "finish_job (EspeakBackend e) jid tx pp ?jd ?w1 =
      r_set ?k ?j JOB_EXPIRY_SECONDS w2" and f2': "faults w2 = faults ?w1"
    using finish_job_espeak_empty_wav [OF assms(3), of jid tx pp ?jd ?w1] by blast
  have f2: "faults w2 = []" using f2' assms(1) by simp
  have run: "?w' = complete_job (EspeakBackend e) jid tx pp ?jd ?w1"
    by (simp add: process_job_with_new_redis_def process_job_interleaved_def a)
  have st: "r_set ?k ?j JOB_EXPIRY_SECONDS w2 = (Inr (), ?w')"
    unfolding run complete_job_def fin using f2 by (simp add: r_set_ok)
  have "live ?w' ?k = Some ?j" by (rule live_after_set [OF st])
  then show ?thesis by simp
qed

text \<open>
  C2 fails in the edge service. The stream yields one audio chunk of no bytes: the list
  of chunks is not empty, so the file is written, with no bytes in it, the call reports
  success, and the job ends \<^verbatim>\<open>completed\<close> with a cache file of size 0. The espeak
  service tests the size of the file and ends such a job \<^verbatim>\<open>failed\<close>.
\<close>

theorem edge_completes_with_empty_file:
  "map_option status (live empty_chunk_run (job_key EdgeTTS ''j1'')) = Some ''completed'' \<and>
   map_option segments (live empty_chunk_run (job_key EdgeTTS ''j1'')) =
     Some [completed_segment EdgeTTS ''j1'' (generate_segment_id ''j1'' 0) 0 (Some [])] \<and>
   files empty_chunk_run (get_cache_path EdgeTTS ''j1'' (generate_segment_id ''j1'' 0)) = Some [] \<and>
   fst (get_segment_audio EdgeTTS ''j1'' (generate_segment_id ''j1'' 0) empty_chunk_run) =
     Inr \<lparr> fr_path = get_cache_path EdgeTTS ''j1'' (generate_segment_id ''j1'' 0),
           fr_content = [], fr_media_type = ''audio/mpeg'',
           fr_filename = generate_segment_id ''j1'' 0 @ ''.mp3'' \<rparr> \<and>
   map_option status (live empty_wav_run (job_key EspeakNG ''j1'')) = Some ''failed''"
proof -
  let ?k = "job_key EdgeTTS ''j1''"
  let ?sid = "generate_segment_id ''j1'' 0"
  have f: "faults pending_world = []" by (rule pending_world_facts)
  obtain r where r: "live pending_world ?k = Some r"
    using pending_world_facts(2) by blast
  have e: "stream_error empty_chunk_engine = None" "write_error empty_chunk_engine = None"
    "fst (collect (stream_chunks empty_chunk_engine)) \<noteq> []"
    by (simp_all add: empty_chunk_engine_def)
  have v: "concat (fst (collect (stream_chunks empty_chunk_engine))) = []"
    "snd (collect (stream_chunks empty_chunk_engine)) = []"
    by (simp_all add: empty_chunk_engine_def)
  note c = edge_run_completed [OF f r e, where tx = "[72, 105]"
      and v = "''en-US-AriaNeural''" and pp = False]
  have l: "live empty_chunk_run ?k =
      Some (r\<lparr>status := ''completed'',
              segments := [completed_segment EdgeTTS ''j1'' ?sid 0 (Some [])]\<rparr>)"
    using c by (simp add: empty_chunk_run_def v)
  have fl: "files empty_chunk_run (get_cache_path EdgeTTS ''j1'' ?sid) = Some []"
    using c by (simp add: empty_chunk_run_def v)
  have fr: "faults empty_chunk_run = []"
    using c by (simp add: empty_chunk_run_def)
  have g: "fst (get_segment_audio EdgeTTS ''j1'' ?sid empty_chunk_run) =
     Inr \<lparr> fr_path = get_cache_path EdgeTTS ''j1'' ?sid,
           fr_content = [], fr_media_type = ''audio/mpeg'', fr_filename = ?sid @ ''.mp3'' \<rparr>"
    by (simp add: get_segment_audio_ok [OF fr] l fl)
  have f': "faults espeak_pending_world = []" by (rule espeak_pending_world_facts)
  obtain r' where r': "live espeak_pending_world (job_key EspeakNG ''j1'') = Some r'"
    using espeak_pending_world_facts(2) by blast
  have w: "wav_written empty_wav_engine = Some []" by (simp add: empty_wav_engine_def)
  have l': "live empty_wav_run (job_key EspeakNG ''j1'') =
      Some (r'\<lparr>status := ''failed'', error := Some ''Synthesis failed''\<rparr>)"
    unfolding empty_wav_run_def by (rule espeak_run_empty_wav_failed [OF f' r' w])
  show ?thesis using l fl g l' by simp
qed

section \<open>The executor and an absent record\<close>

lemma advance_fields [simp]:
  "now (advance d w) = now w + d" "redis (advance d w) = redis w" "files (advance d w) = files w"
  "faults (advance d w) = faults w" "trace (advance d w) = trace w"
  by (simp_all add: advance_def)

text \<open>
  The second stretch, the store answering: the events are the synthesis call, cache
  events and, last, the write of the record. The store is not read.
\<close>

lemma complete_job_trace_ok:
  assumes "faults w = []"
  shows "\<exists>j evs.
     trace (complete_job be jid tx pp jd w) = trace w @
       BackendCall tx (voice jd) (get_cache_path (service_of be) jid (generate_segment_id jid 0)) #
       evs @ [StoreSet (job_key (service_of be) jid) j JOB_EXPIRY_SECONDS] \<and>
     list_all cache_event evs \<and>
     redis (complete_job be jid tx pp jd w) =
       (redis w)(job_key (service_of be) jid \<mapsto> (j, now w + JOB_EXPIRY_SECONDS)) \<and>
     now (complete_job be jid tx pp jd w) = now w \<and>
     faults (complete_job be jid tx pp jd w) = [] \<and>
     live (complete_job be jid tx pp jd w) (job_key (service_of be) jid) = Some j \<and>
     ((\<exists>n t. j = jd\<lparr>status := ''completed'',
                   segments := [completed_segment (service_of be) jid (generate_segment_id jid 0)
                                  n t]\<rparr>) \<or>
      j = jd\<lparr>status := ''failed'', error := Some ''Synthesis failed''\<rparr>)"
proof -
  let ?svc = "service_of be"
  let ?sid = "generate_segment_id jid 0"
  let ?w' = "complete_job be jid tx pp jd w"
  obtain w1 j evs where
    s: "r_set (job_key ?svc jid) j JOB_EXPIRY_SECONDS w1 = (Inr (), ?w')"
    and f1: "faults w1 = []" and n1: "now w1 = now w" and r1: "redis w1 = redis w"
    and t1: "trace w1 = trace w @ BackendCall tx (voice jd) (get_cache_path ?svc jid ?sid) # evs"
    and e: "list_all cache_event evs"
    and c: "(\<exists>d t. j = jd\<lparr>status := ''completed'',
                   segments := [completed_segment ?svc jid ?sid (length d) t]\<rparr> \<and>
               files w1 (get_cache_path ?svc jid ?sid) = Some d) \<or>
            j = jd\<lparr>status := ''failed'', error := Some ''Synthesis failed''\<rparr>"
    using complete_job_ok [OF assms, of be jid tx pp jd] by blast
  have "trace ?w' = trace w @ BackendCall tx (voice jd) (get_cache_path ?svc jid ?sid) #
      evs @ [StoreSet (job_key ?svc jid) j JOB_EXPIRY_SECONDS]"
    using r_set_effect [OF s] t1 by simp
  moreover have "redis ?w' = (redis w)(job_key ?svc jid \<mapsto> (j, now w + JOB_EXPIRY_SECONDS))"
    using r_set_effect [OF s] n1 r1 by simp
  moreover have "now ?w' = now w" "faults ?w' = []"
    using r_set_effect [OF s] n1 f1 by simp_all
  moreover have "live ?w' (job_key ?svc jid) = Some j" by (rule live_after_set [OF s])
  moreover have "(\<exists>n t. j = jd\<lparr>status := ''completed'',
                   segments := [completed_segment ?svc jid ?sid n t]\<rparr>) \<or>
      j = jd\<lparr>status := ''failed'', error := Some ''Synthesis failed''\<rparr>"
    using c by blast
  ultimately show ?thesis using e by blast
qed

text \<open>
  C9. The store answering. If the executor's first read finds no record, the run is that
  read and nothing else: no synthesis call, no write. If the record is there at the
  start but is gone (deleted, or expired) when the synthesis begins, the run goes on
  with the synthesis call and cache events and ends with the write of the record,
  without reading the store again: the record is back, in a terminal state, expiring
  \<^verbatim>\<open>JOB_EXPIRY_SECONDS\<close> after the write.
\<close>

theorem executor_absent_record:
  assumes "faults w = []"
  shows "(live w (job_key (service_of be) jid) = None \<longrightarrow>
            process_job_interleaved other be jid tx v pp w =
              emit (StoreGet (job_key (service_of be) jid)) w) \<and>
         (live w (job_key (service_of be) jid) = Some r \<and>
          faults (other (snd (accept_job (service_of be) jid w))) = [] \<and>
          live (other (snd (accept_job (service_of be) jid w))) (job_key (service_of be) jid) = None \<longrightarrow>
            (\<exists>j evs.
               trace (process_job_interleaved other be jid tx v pp w) =
                 trace (other (snd (accept_job (service_of be) jid w))) @
                 BackendCall tx (voice r)
                   (get_cache_path (service_of be) jid (generate_segment_id jid 0)) #
                 evs @ [StoreSet (job_key (service_of be) jid) j JOB_EXPIRY_SECONDS] \<and>
               list_all cache_event evs \<and>
               redis (process_job_interleaved other be jid tx v pp w) (job_key (service_of be) jid) =
                 Some (j, now (other (snd (accept_job (service_of be) jid w))) + JOB_EXPIRY_SECONDS) \<and>
               live (process_job_interleaved other be jid tx v pp w) (job_key (service_of be) jid) =
                 Some j \<and>
               (status j = ''completed'' \<or> status j = ''failed'') \<and> job_id j = job_id r))"
proof (intro conjI impI)
  assume "live w (job_key (service_of be) jid) = None"
  then show "process_job_interleaved other be jid tx v pp w =
      emit (StoreGet (job_key (service_of be) jid)) w"
    using assms by (simp add: process_job_interleaved_def accept_job_ok)
next
  let ?svc = "service_of be"
  let ?k = "job_key ?svc jid"
  let ?w2 = "other (snd (accept_job ?svc jid w))"
  let ?w' = "process_job_interleaved other be jid tx v pp w"
  let ?jd = "r\<lparr>status := ''processing''\<rparr>"
  assume a: "live w ?k = Some r \<and> faults ?w2 = [] \<and> live ?w2 ?k = None"
  then have f2: "faults ?w2 = []" by simp
  have run: "?w' = complete_job be jid tx pp ?jd ?w2"
    using assms a by (simp add: process_job_interleaved_def accept_job_ok)
  obtain j evs where
    t: "trace (complete_job be jid tx pp ?jd ?w2) = trace ?w2 @
       BackendCall tx (voice ?jd) (get_cache_path ?svc jid (generate_segment_id jid 0)) #
       evs @ [StoreSet ?k j JOB_EXPIRY_SECONDS]"
    and e: "list_all cache_event evs"
    and rd: "redis (complete_job be jid tx pp ?jd ?w2) =
       (redis ?w2)(?k \<mapsto> (j, now ?w2 + JOB_EXPIRY_SECONDS))"
    and l: "live (complete_job be jid tx pp ?jd ?w2) ?k = Some j"
    and c: "(\<exists>n t. j = ?jd\<lparr>status := ''completed'',
                   segments := [completed_segment ?svc jid (generate_segment_id jid 0)
                                  n t]\<rparr>) \<or>
            j = ?jd\<lparr>status := ''failed'', error := Some ''Synthesis failed''\<rparr>"
    using complete_job_trace_ok [OF f2, of be jid tx pp ?jd] by blast
  have st: "(status j = ''completed'' \<or> status j = ''failed'') \<and> job_id j = job_id r"
    using c by auto
  have t': "trace ?w' = trace ?w2 @
       BackendCall tx (voice r) (get_cache_path ?svc jid (generate_segment_id jid 0)) #
       evs @ [StoreSet ?k j JOB_EXPIRY_SECONDS]"
    using t run by simp
  have rd': "redis ?w' ?k = Some (j, now ?w2 + JOB_EXPIRY_SECONDS)"
    using rd run by simp
  have l': "live ?w' ?k = Some j" using l run by simp
  show "\<exists>j evs.
      trace ?w' = trace ?w2 @
        BackendCall tx (voice r) (get_cache_path ?svc jid (generate_segment_id jid 0)) #
        evs @ [StoreSet ?k j JOB_EXPIRY_SECONDS] \<and>
      list_all cache_event evs \<and>
      redis ?w' ?k = Some (j, now ?w2 + JOB_EXPIRY_SECONDS) \<and>
      live ?w' ?k = Some j \<and>
      (status j = ''completed'' \<or> status j = ''failed'') \<and> job_id j = job_id r"
    using t' e rd' l' st by blast
qed

text \<open>
  Job \<^verbatim>\<open>j1\<close> right after its \<^verbatim>\<open>processing\<close> write, the store answering: the record
  expires after \<^verbatim>\<open>JOB_EXPIRY_SECONDS\<close>, and a delete removes it.
\<close>

lemma accepted_world_facts:
  "\<exists>r. live pending_world (job_key EdgeTTS ''j1'') = Some r \<and> job_id r = ''j1'' \<and>
     voice r = ''en-US-AriaNeural''"
  "faults (snd (accept_job EdgeTTS ''j1'' pending_world)) = []"
  "live (advance 3600 (snd (accept_job EdgeTTS ''j1'' pending_world))) (job_key EdgeTTS ''j1'') = None"
  "faults (delete_during_synthesis (snd (accept_job EdgeTTS ''j1'' pending_world))) = []"
  "live (delete_during_synthesis (snd (accept_job EdgeTTS ''j1'' pending_world)))
     (job_key EdgeTTS ''j1'') = None"
proof -
  let ?k = "job_key EdgeTTS ''j1''"
  have f: "faults pending_world = []" by (rule pending_world_facts)
  obtain r where r: "live pending_world ?k = Some r" "job_id r = ''j1''"
      "voice r = ''en-US-AriaNeural''"
    using pending_world_facts(2) by simp
  let ?jd = "r\<lparr>status := ''processing''\<rparr>"
  let ?w1 = "emit (StoreSet ?k ?jd JOB_EXPIRY_SECONDS)
      ((emit (StoreGet ?k) pending_world)
         \<lparr>redis := (redis pending_world)(?k \<mapsto> (?jd, now pending_world + JOB_EXPIRY_SECONDS))\<rparr>)"
  let ?w2 = "emit (StoreDelete ?k)
      ((snd (unlink_segments EdgeTTS ''j1'' (segments ?jd) (emit (StoreGet ?k) ?w1)))
         \<lparr>redis := (redis ?w1)(?k := None)\<rparr>)"
  have a: "accept_job EdgeTTS ''j1'' pending_world = (Inr (Some ?jd), ?w1)"
    using f r by (simp add: accept_job_ok)
  have s1: "snd (accept_job EdgeTTS ''j1'' pending_world) = ?w1" by (simp add: a)
  have f1: "faults ?w1 = []" using f by simp
  have l1: "live ?w1 ?k = Some ?jd" by (simp add: live_def JOB_EXPIRY_SECONDS_def)
  have d1: "delete_job EdgeTTS ''j1'' ?w1 = (Inr ''Job deleted successfully'', ?w2)"
    unfolding delete_job_ok [OF f1] l1 by simp
  have f2: "faults ?w2 = []"
    using unlink_segments_frame [of EdgeTTS "''j1''" "segments ?jd" "emit (StoreGet ?k) ?w1"] f
    by simp
  have l2: "live ?w2 ?k = None" by (simp add: live_def)
  show "\<exists>r. live pending_world ?k = Some r \<and> job_id r = ''j1'' \<and> voice r = ''en-US-AriaNeural''"
    using r by blast
  show "faults (snd (accept_job EdgeTTS ''j1'' pending_world)) = []"
    unfolding s1 by (rule f1)
  show "live (advance 3600 (snd (accept_job EdgeTTS ''j1'' pending_world))) ?k = None"
    unfolding s1 by (simp add: live_def JOB_EXPIRY_SECONDS_def)
  show "faults (delete_during_synthesis (snd (accept_job EdgeTTS ''j1'' pending_world))) = []"
    unfolding s1 delete_during_synthesis_def d1 using f2 by simp
  show "live (delete_during_synthesis (snd (accept_job EdgeTTS ''j1'' pending_world))) ?k = None"
    unfolding s1 delete_during_synthesis_def d1 using l2 by simp
qed

theorem executor_absent_record_witness:
  "faults world0 = [] \<and> live world0 (job_key EdgeTTS ''j1'') = None \<and>
   process_job_interleaved (\<lambda>x. x) (EdgeBackend good_engine) ''j1'' [72, 105]
       ''en-US-AriaNeural'' False world0 = emit (StoreGet (job_key EdgeTTS ''j1'')) world0 \<and>
   faults pending_world = [] \<and>
   faults (advance 3600 (snd (accept_job EdgeTTS ''j1'' pending_world))) = [] \<and>
   live (advance 3600 (snd (accept_job EdgeTTS ''j1'' pending_world))) (job_key EdgeTTS ''j1'') = None \<and>
   (\<exists>j evs.
      trace (process_job_interleaved (advance 3600) (EdgeBackend good_engine) ''j1'' [72, 105]
          ''en-US-AriaNeural'' False pending_world) =
        trace (advance 3600 (snd (accept_job EdgeTTS ''j1'' pending_world))) @
        BackendCall [72, 105] ''en-US-AriaNeural''
          (get_cache_path EdgeTTS ''j1'' (generate_segment_id ''j1'' 0)) #
        evs @ [StoreSet (job_key EdgeTTS ''j1'') j JOB_EXPIRY_SECONDS] \<and>
      list_all cache_event evs \<and>
      live (process_job_interleaved (advance 3600) (EdgeBackend good_engine) ''j1'' [72, 105]
          ''en-US-AriaNeural'' False pending_world) (job_key EdgeTTS ''j1'') = Some j \<and>
      (status j = ''completed'' \<or> status j = ''failed'') \<and> job_id j = ''j1'') \<and>
   faults (delete_during_synthesis (snd (accept_job EdgeTTS ''j1'' pending_world))) = [] \<and>
   live (delete_during_synthesis (snd (accept_job EdgeTTS ''j1'' pending_world)))
     (job_key EdgeTTS ''j1'') = None \<and>
   (\<exists>j. live raced_world (job_key EdgeTTS ''j1'') = Some j \<and>
      (status j = ''completed'' \<or> status j = ''failed'') \<and> job_id j = ''j1'')"
proof -
  let ?k = "job_key EdgeTTS ''j1''"
  let ?be = "EdgeBackend good_engine"
  have f0: "faults world0 = []" by (simp add: world0_def)
  have l0: "live world0 ?k = None" by (simp add: world0_def live_def)
  have s: "service_of ?be = EdgeTTS" by simp
  have a: "process_job_interleaved (\<lambda>x. x) ?be ''j1'' [72, 105] ''en-US-AriaNeural'' False world0 =
      emit (StoreGet ?k) world0"
    using executor_absent_record [OF f0, where be = ?be and jid = "''j1''" and other = "\<lambda>x. x"
        and tx = "[72, 105]" and v = "''en-US-AriaNeural''" and pp = False] l0
    unfolding s by simp
  have f: "faults pending_world = []" by (rule pending_world_facts)
  obtain r where r: "live pending_world ?k = Some r" "job_id r = ''j1''"
      "voice r = ''en-US-AriaNeural''"
    using accepted_world_facts(1) by blast
  have fa: "faults (advance 3600 (snd (accept_job EdgeTTS ''j1'' pending_world))) = []"
    using accepted_world_facts(2) by simp
  note la = accepted_world_facts(3)
  note fd = accepted_world_facts(4)
  note ld = accepted_world_facts(5)
  have b: "\<exists>j evs.
      trace (process_job_interleaved (advance 3600) ?be ''j1'' [72, 105]
          ''en-US-AriaNeural'' False pending_world) =
        trace (advance 3600 (snd (accept_job EdgeTTS ''j1'' pending_world))) @
        BackendCall [72, 105] ''en-US-AriaNeural''
          (get_cache_path EdgeTTS ''j1'' (generate_segment_id ''j1'' 0)) #
        evs @ [StoreSet ?k j JOB_EXPIRY_SECONDS] \<and>
      list_all cache_event evs \<and>
      live (process_job_interleaved (advance 3600) ?be ''j1'' [72, 105]
          ''en-US-AriaNeural'' False pending_world) ?k = Some j \<and>
      (status j = ''completed'' \<or> status j = ''failed'') \<and> job_id j = ''j1''"
    using executor_absent_record [OF f, where be = ?be and jid = "''j1''" and r = r
        and other = "advance 3600" and tx = "[72, 105]" and v = "''en-US-AriaNeural''"
        and pp = False] r fa la
    unfolding s by auto
  have c: "\<exists>j. live raced_world ?k = Some j \<and>
      (status j = ''completed'' \<or> status j = ''failed'') \<and> job_id j = ''j1''"
    using executor_absent_record [OF f, where be = ?be and jid = "''j1''" and r = r
        and other = delete_during_synthesis and tx = "[72, 105]" and v = "''en-US-AriaNeural''"
        and pp = False] r fd ld
    unfolding s raced_world_def by auto
  show ?thesis using f0 l0 a f fa la b fd ld c by blast
qed

section \<open>The error message of a failed job\<close>





lemma processing_world_facts:
  "faults processing_world = []"
  "faults refusing_world = [Some ''Connection refused'']"
  "live refusing_world (job_key EdgeTTS ''j1'') = Some processing_job"
  by (simp_all add: processing_world_def refusing_world_def live_def)



section \<open>The writes of a run, under any fault schedule\<close>

text \<open>
  Each step of the job's life only adds to the trace. What follows says, for every fault
  schedule, which status values the step writes under the job's key and with which
  expiry.
\<close>

lemma create_job_writes:
  "\<exists>evs. trace (snd (create_job svc request jid w)) = trace w @ evs \<and>
     list_all (\<lambda>t. t = JOB_EXPIRY_SECONDS) (set_ttls evs) \<and>
     status_writes (job_key svc jid) evs =
       (case fst (create_job svc request jid w) of Inl e \<Rightarrow> [] | Inr r \<Rightarrow> [''pending''])"
  by (auto simp: create_job_def store_job_def r_set_def next_fault_def Let_def
      split: list.splits option.splits)

lemma accept_job_writes:
  "\<exists>evs. trace (snd (accept_job svc jid w)) = trace w @ evs \<and>
     list_all (\<lambda>t. t = JOB_EXPIRY_SECONDS) (set_ttls evs) \<and>
     status_writes (job_key svc jid) evs =
       (case fst (accept_job svc jid w) of
          Inl e \<Rightarrow> [] | Inr None \<Rightarrow> [] | Inr (Some jd) \<Rightarrow> [''processing''])"
  by (auto simp: accept_job_def r_get_def r_set_def next_fault_def Let_def
      split: list.splits option.splits)

lemma mark_failed_writes:
  "\<exists>evs. trace (mark_failed svc jid e w) = trace w @ evs \<and>
     list_all (\<lambda>t. t = JOB_EXPIRY_SECONDS) (set_ttls evs) \<and>
     (status_writes (job_key svc jid) evs = [] \<or>
      status_writes (job_key svc jid) evs = [''failed''])"
  by (auto simp: mark_failed_def r_get_def r_set_def next_fault_def Let_def
      split: list.splits option.splits)

lemma finish_job_writes:
  "\<exists>evs. trace (snd (finish_job be jid tx pp jd w)) = trace w @ evs \<and>
     list_all (\<lambda>t. t = JOB_EXPIRY_SECONDS) (set_ttls evs) \<and>
     (case fst (finish_job be jid tx pp jd w) of
        Inl e \<Rightarrow> status_writes (job_key (service_of be) jid) evs = []
      | Inr u \<Rightarrow> status_writes (job_key (service_of be) jid) evs = [''completed''] \<or>
                 status_writes (job_key (service_of be) jid) evs = [''failed''])"
proof -
  let ?k = "job_key (service_of be) jid"
  let ?p = "get_cache_path (service_of be) jid (generate_segment_id jid 0)"
  obtain w1 j evs where
    fin: "finish_job be jid tx pp jd w = r_set ?k j JOB_EXPIRY_SECONDS w1"
    and t1: "trace w1 = trace w @ BackendCall tx (voice jd) ?p # evs"
    and e: "list_all cache_event evs"
    and c: "(\<exists>d t. j = jd\<lparr>status := ''completed'',
                   segments := [completed_segment (service_of be) jid (generate_segment_id jid 0)
                                  (length d) t]\<rparr> \<and> files w1 ?p = Some d) \<or>
            j = jd\<lparr>status := ''failed'', error := Some ''Synthesis failed''\<rparr>"
    using finish_job_shape [of be jid tx pp jd w] by blast
  have st: "status j = ''completed'' \<or> status j = ''failed''" using c by auto
  have n: "status_writes ?k evs = []" "set_ttls evs = []"
    using no_store_status_writes [OF cache_event_not_store [OF e]]
      no_store_set_ttls [OF cache_event_not_store [OF e]] by simp_all
  obtain r w' where s: "r_set ?k j JOB_EXPIRY_SECONDS w1 = (r, w')"
    by (cases "r_set ?k j JOB_EXPIRY_SECONDS w1") auto
  show ?thesis
  proof (cases r)
    case (Inl m)
    then have "trace w' = trace w @ (BackendCall tx (voice jd) ?p # evs)"
      using r_set_effect [OF s] t1 by simp
    then show ?thesis using n Inl by (simp add: fin s)
  next
    case (Inr u)
    then have "trace w' = trace w @
        ((BackendCall tx (voice jd) ?p # evs) @ [StoreSet ?k j JOB_EXPIRY_SECONDS])"
      using r_set_effect [OF s] t1 by simp
    moreover have "set_ttls ((BackendCall tx (voice jd) ?p # evs) @
        [StoreSet ?k j JOB_EXPIRY_SECONDS]) = [JOB_EXPIRY_SECONDS]"
      using n(2) by simp
    moreover have "status_writes ?k ((BackendCall tx (voice jd) ?p # evs) @
        [StoreSet ?k j JOB_EXPIRY_SECONDS]) = [status j]"
      using n(1) by simp
    ultimately show ?thesis using st Inr by (auto simp: fin s)
  qed
qed

lemma complete_job_writes:
  "\<exists>evs. trace (complete_job be jid tx pp jd w) = trace w @ evs \<and>
     list_all (\<lambda>t. t = JOB_EXPIRY_SECONDS) (set_ttls evs) \<and>
     (status_writes (job_key (service_of be) jid) evs = [] \<or>
      status_writes (job_key (service_of be) jid) evs = [''completed''] \<or>
      status_writes (job_key (service_of be) jid) evs = [''failed''])"
proof -
  let ?k = "job_key (service_of be) jid"
  obtain r w2 where f: "finish_job be jid tx pp jd w = (r, w2)"
    by (cases "finish_job be jid tx pp jd w") auto
  obtain evs where
    t: "trace w2 = trace w @ evs" and l: "list_all (\<lambda>t. t = JOB_EXPIRY_SECONDS) (set_ttls evs)"
    and c: "case r of
        Inl e \<Rightarrow> status_writes ?k evs = []
      | Inr u \<Rightarrow> status_writes ?k evs = [''completed''] \<or> status_writes ?k evs = [''failed'']"
    using finish_job_writes [of be jid tx pp jd w] by (auto simp: f)
  show ?thesis
  proof (cases r)
    case (Inl e)
    obtain evs2 where
      t2: "trace (mark_failed (service_of be) jid e w2) = trace w2 @ evs2"
      and l2: "list_all (\<lambda>t. t = JOB_EXPIRY_SECONDS) (set_ttls evs2)"
      and c2: "status_writes ?k evs2 = [] \<or> status_writes ?k evs2 = [''failed'']"
      using mark_failed_writes [of "service_of be" jid e w2] by blast
    have "trace (complete_job be jid tx pp jd w) = trace w @ (evs @ evs2)"
      using t t2 Inl by (simp add: complete_job_def f)
    moreover have "list_all (\<lambda>t. t = JOB_EXPIRY_SECONDS) (set_ttls (evs @ evs2))"
      using l l2 by simp
    moreover have "status_writes ?k (evs @ evs2) = [] \<or>
        status_writes ?k (evs @ evs2) = [''failed'']"
      using c c2 Inl by auto
    ultimately show ?thesis by blast
  next
    case (Inr u)
    then have "trace (complete_job be jid tx pp jd w) = trace w @ evs"
      using t by (simp add: complete_job_def f)
    then show ?thesis using l c Inr by auto
  qed
qed



section \<open>The order of the status writes\<close>





section \<open>Expiry\<close>

lemma get_job_status_ok:
  assumes "faults w = []"
  shows "get_job_status svc jid w =
     (case live w (job_key svc jid) of
        None \<Rightarrow> (Inl (HTTPException 404 ''Job not found''), emit (StoreGet (job_key svc jid)) w)
      | Some j \<Rightarrow> (Inr j, emit (StoreGet (job_key svc jid)) w))"
  using assms by (simp add: get_job_status_def get_job_def r_get_ok split: option.splits)

lemma create_job_stored:
  assumes "faults w = []" and "\<not> list_all isspace (req_text request)"
  shows "\<exists>j. redis (snd (create_job svc request jid w)) (job_key svc jid) =
           Some (j, now w + JOB_EXPIRY_SECONDS) \<and> status j = ''pending''"
proof -
  have "strip (req_text request) \<noteq> []" using assms(2) by (simp add: strip_empty_iff)
  moreover have "req_text request \<noteq> []" using assms(2) by auto
  ultimately show ?thesis
    using assms(1) by (simp add: create_job_def store_job_def r_set_ok Let_def)
qed

text \<open>
  C8. Every write of a job's record is a \<^verbatim>\<open>SET\<close> with expiry \<^verbatim>\<open>JOB_EXPIRY_SECONDS\<close>, which
  is 3600: under every schedule of store failures, \<^verbatim>\<open>create_job\<close>, the first stretch of
  the executor, its second stretch and its handler write with no other expiry. When the
  store answers, the creation write, the \<^verbatim>\<open>processing\<close> write and the terminal write each
  leave the record expiring 3600 seconds after the time of the write. A record that was
  last written at time \<open>t\<close> is returned by \<^verbatim>\<open>get_job_status\<close> as long as less than 3600
  seconds have passed since \<open>t\<close>; from then on the answer is 404 \<^verbatim>\<open>Job not found\<close>, the
  same as for a job that never existed.
\<close>

theorem every_write_refreshes_expiry:
  "JOB_EXPIRY_SECONDS = 3600 \<and>
   (\<exists>evs. trace (snd (create_job svc request jid w)) = trace w @ evs \<and>
      list_all (\<lambda>t. t = JOB_EXPIRY_SECONDS) (set_ttls evs)) \<and>
   (\<exists>evs. trace (snd (accept_job svc jid w)) = trace w @ evs \<and>
      list_all (\<lambda>t. t = JOB_EXPIRY_SECONDS) (set_ttls evs)) \<and>
   (\<exists>evs. trace (complete_job be jid tx pp jd w) = trace w @ evs \<and>
      list_all (\<lambda>t. t = JOB_EXPIRY_SECONDS) (set_ttls evs)) \<and>
   (\<exists>evs. trace (mark_failed svc jid e w) = trace w @ evs \<and>
      list_all (\<lambda>t. t = JOB_EXPIRY_SECONDS) (set_ttls evs)) \<and>
   (faults w = [] \<and> \<not> list_all isspace (req_text request) \<longrightarrow>
      (\<exists>j. redis (snd (create_job svc request jid w)) (job_key svc jid) =
              Some (j, now w + JOB_EXPIRY_SECONDS) \<and> status j = ''pending'')) \<and>
   (faults w = [] \<and> live w (job_key svc jid) = Some r \<longrightarrow>
      redis (snd (accept_job svc jid w)) (job_key svc jid) =
        Some (r\<lparr>status := ''processing''\<rparr>, now w + JOB_EXPIRY_SECONDS)) \<and>
   (faults w = [] \<longrightarrow>
      (\<exists>j. redis (complete_job be jid tx pp jd w) (job_key (service_of be) jid) =
              Some (j, now w + JOB_EXPIRY_SECONDS) \<and>
            (status j = ''completed'' \<or> status j = ''failed''))) \<and>
   (faults w = [] \<and> redis w (job_key svc jid) = Some (j, t + JOB_EXPIRY_SECONDS) \<longrightarrow>
      fst (get_job_status svc jid (advance d w)) =
        (if now w + d < t + JOB_EXPIRY_SECONDS then Inr j
         else Inl (HTTPException 404 ''Job not found'')))"
proof -
  have a: "JOB_EXPIRY_SECONDS = 3600" by (simp add: JOB_EXPIRY_SECONDS_def)
  have b: "\<exists>evs. trace (snd (create_job svc request jid w)) = trace w @ evs \<and>
      list_all (\<lambda>t. t = JOB_EXPIRY_SECONDS) (set_ttls evs)"
    using create_job_writes [of svc request jid w] by blast
  have c: "\<exists>evs. trace (snd (accept_job svc jid w)) = trace w @ evs \<and>
      list_all (\<lambda>t. t = JOB_EXPIRY_SECONDS) (set_ttls evs)"
    using accept_job_writes [of svc jid w] by blast
  have d: "\<exists>evs. trace (complete_job be jid tx pp jd w) = trace w @ evs \<and>
      list_all (\<lambda>t. t = JOB_EXPIRY_SECONDS) (set_ttls evs)"
    using complete_job_writes [of be jid tx pp jd w] by blast
  have e: "\<exists>evs. trace (mark_failed svc jid e w) = trace w @ evs \<and>
      list_all (\<lambda>t. t = JOB_EXPIRY_SECONDS) (set_ttls evs)"
    using mark_failed_writes [of svc jid e w] by blast
  have f: "faults w = [] \<and> \<not> list_all isspace (req_text request) \<longrightarrow>
      (\<exists>j. redis (snd (create_job svc request jid w)) (job_key svc jid) =
              Some (j, now w + JOB_EXPIRY_SECONDS) \<and> status j = ''pending'')"
    using create_job_stored [of w request svc jid] by blast
  have g: "faults w = [] \<and> live w (job_key svc jid) = Some r \<longrightarrow>
      redis (snd (accept_job svc jid w)) (job_key svc jid) =
        Some (r\<lparr>status := ''processing''\<rparr>, now w + JOB_EXPIRY_SECONDS)"
    by (simp add: accept_job_ok)
  have h: "faults w = [] \<longrightarrow>
      (\<exists>j. redis (complete_job be jid tx pp jd w) (job_key (service_of be) jid) =
              Some (j, now w + JOB_EXPIRY_SECONDS) \<and>
            (status j = ''completed'' \<or> status j = ''failed''))"
    using complete_job_writes_terminal [of w be jid tx pp jd] by blast
  have i: "faults w = [] \<and> redis w (job_key svc jid) = Some (j, t + JOB_EXPIRY_SECONDS) \<longrightarrow>
      fst (get_job_status svc jid (advance d w)) =
        (if now w + d < t + JOB_EXPIRY_SECONDS then Inr j
         else Inl (HTTPException 404 ''Job not found''))"
    by (simp add: get_job_status_ok live_def)
  show ?thesis using a b c d e f g h i by (intro conjI)
qed

lemma done_world_facts:
  "faults done_world = []"
  "redis done_world (job_key EdgeTTS ''j1'') = Some (done_job, 10 + JOB_EXPIRY_SECONDS)"
  "now done_world = 10"
  by (simp_all add: done_world_def JOB_EXPIRY_SECONDS_def job_key_def)

theorem every_write_refreshes_expiry_witness:
  "faults world0 = [] \<and> \<not> list_all isspace (req_text hello_request) \<and>
   (\<exists>j. redis pending_world (job_key EdgeTTS ''j1'') = Some (j, now world0 + 3600) \<and>
      status j = ''pending'') \<and>
   faults pending_world = [] \<and>
   (\<exists>r. live pending_world (job_key EdgeTTS ''j1'') = Some r \<and>
      redis (snd (accept_job EdgeTTS ''j1'' pending_world)) (job_key EdgeTTS ''j1'') =
        Some (r\<lparr>status := ''processing''\<rparr>, now pending_world + 3600)) \<and>
   faults processing_world = [] \<and>
   (\<exists>j. redis (complete_job (EdgeBackend good_engine) ''j1'' [72, 105] False processing_job
              processing_world) (job_key EdgeTTS ''j1'') = Some (j, now processing_world + 3600) \<and>
      (status j = ''completed'' \<or> status j = ''failed'')) \<and>
   faults done_world = [] \<and>
   redis done_world (job_key EdgeTTS ''j1'') = Some (done_job, 10 + JOB_EXPIRY_SECONDS) \<and>
   now done_world = 10 \<and>
   fst (get_job_status EdgeTTS ''j1'' (advance 3599 done_world)) = Inr done_job \<and>
   fst (get_job_status EdgeTTS ''j1'' (advance 3600 done_world)) =
     Inl (HTTPException 404 ''Job not found'') \<and>
   fst (get_job_status EdgeTTS ''j1'' (advance 3600 done_world)) =
     fst (get_job_status EdgeTTS ''j1'' world0)"
proof -
  let ?k = "job_key EdgeTTS ''j1''"
  have x: "JOB_EXPIRY_SECONDS = 3600" by (simp add: JOB_EXPIRY_SECONDS_def)
  have f0: "faults world0 = []" by (simp add: world0_def)
  have t0: "\<not> list_all isspace (req_text hello_request)"
    by (simp add: hello_request_def isspace_def)
  have p: "\<exists>j. redis pending_world ?k = Some (j, now world0 + 3600) \<and> status j = ''pending''"
    using every_write_refreshes_expiry [where w = world0 and request = hello_request
        and svc = EdgeTTS and jid = "''j1''"] f0 t0
    unfolding pending_world_def x by blast
  have f: "faults pending_world = []" by (rule pending_world_facts)
  obtain r where r: "live pending_world ?k = Some r"
    using pending_world_facts(2) by blast
  have q: "redis (snd (accept_job EdgeTTS ''j1'' pending_world)) ?k =
        Some (r\<lparr>status := ''processing''\<rparr>, now pending_world + 3600)"
    using every_write_refreshes_expiry [where w = pending_world and svc = EdgeTTS
        and jid = "''j1''" and r = r] f r
    unfolding x by blast
  note fp = processing_world_facts(1)
  have s: "service_of (EdgeBackend good_engine) = EdgeTTS" by simp
  have c: "\<exists>j. redis (complete_job (EdgeBackend good_engine) ''j1'' [72, 105] False processing_job
              processing_world) ?k = Some (j, now processing_world + 3600) \<and>
      (status j = ''completed'' \<or> status j = ''failed'')"
    using every_write_refreshes_expiry [where w = processing_world
        and be = "EdgeBackend good_engine" and jid = "''j1''" and tx = "[72, 105]" and pp = False
        and jd = processing_job] fp
    unfolding x s by blast
  note d = done_world_facts
  have g1: "fst (get_job_status EdgeTTS ''j1'' (advance 3599 done_world)) = Inr done_job"
    using every_write_refreshes_expiry [where w = done_world and svc = EdgeTTS
        and jid = "''j1''" and j = done_job and t = 10 and d = 3599] d
    unfolding x by simp
  have g2: "fst (get_job_status EdgeTTS ''j1'' (advance 3600 done_world)) =
      Inl (HTTPException 404 ''Job not found'')"
    using every_write_refreshes_expiry [where w = done_world and svc = EdgeTTS
        and jid = "''j1''" and j = done_job and t = 10 and d = 3600] d
    unfolding x by simp
  have g3: "fst (get_job_status EdgeTTS ''j1'' world0) = Inl (HTTPException 404 ''Job not found'')"
  proof -
    have "live world0 ?k = None" by (simp add: world0_def live_def)
    then show ?thesis by (simp add: get_job_status_ok [OF f0])
  qed
  show ?thesis using f0 t0 p f r q fp c d g1 g2 g3 by auto
qed

end
